theory Spec2Isabelle
  imports Complex_Main "HOL-Library.Char_ord" "HOL-Library.Sublist"
begin

section \<open>Python strings\<close>

text \<open>
  A Python \<open>str\<close> of identifiers, responses and file lines is a \<open>string\<close>: a list of
  characters, each a code point below 256. The helpers below are the \<open>str\<close> methods and
  the regular expressions the three scripts use, restricted to such code points.
\<close>

definition py_isspace :: "char \<Rightarrow> bool" where
  \<comment> \<open>\<open>str.isspace\<close>, which is also the class \<open>\s\<close> of \<open>re\<close>: tab to carriage return, the
      four separators 0x1c..0x1f, the space, NEL and the no-break space.\<close>
  "py_isspace c = (of_char c \<in> {9, 10, 11, 12, 13, 28, 29, 30, 31, 32, 133, 160 :: nat})"

definition py_strip :: "string \<Rightarrow> string" where
  "py_strip s = rev (dropWhile py_isspace (rev (dropWhile py_isspace s)))"

definition py_lower_char :: "char \<Rightarrow> char" where
  \<comment> \<open>\<open>str.lower\<close> on one code point below 256: A..Z and the Latin-1 capitals.\<close>
  "py_lower_char c =
     (let n = (of_char c :: nat) in
      if (65 \<le> n \<and> n \<le> 90) \<or> (192 \<le> n \<and> n \<le> 222 \<and> n \<noteq> 215)
      then char_of (n + 32) else c)"

definition py_lower :: "string \<Rightarrow> string" where
  "py_lower s = map py_lower_char s"

definition is_lower_az :: "char \<Rightarrow> bool" where
  \<comment> \<open>The class \<open>[a-z]\<close>.\<close>
  "is_lower_az c = (CHR ''a'' \<le> c \<and> c \<le> CHR ''z'')"

definition upper_az :: "char \<Rightarrow> char" where
  \<comment> \<open>\<open>str.upper\<close> on a character of \<open>[a-z]\<close>, the only place the scripts call it.\<close>
  "upper_az c = (if is_lower_az c then char_of ((of_char c :: nat) - 32) else c)"

definition is_digit :: "char \<Rightarrow> bool" where
  \<comment> \<open>The class \<open>\d\<close> below code point 256.\<close>
  "is_digit c = (CHR ''0'' \<le> c \<and> c \<le> CHR ''9'')"

definition digit_val :: "char \<Rightarrow> int" where
  "digit_val c = int (of_char c) - 48"

definition dec_value :: "string \<Rightarrow> int" where
  \<comment> \<open>The value of a run of decimal digits.\<close>
  "dec_value ds = foldl (\<lambda>a d. 10 * a + digit_val d) 0 ds"

function dec_digits :: "int \<Rightarrow> nat" where
  \<comment> \<open>The number of decimal digits of a non-negative integer.\<close>
  "dec_digits n = (if n < 10 then 1 else Suc (dec_digits (n div 10)))"
  by pat_completeness auto
termination
  by (relation "measure nat") auto

declare dec_digits.simps [simp del]

definition str_ok :: "nat \<Rightarrow> int \<Rightarrow> bool" where
  \<comment> \<open>\<open>str(n)\<close>, also inside an f-string, returns: \<open>n\<close> has no more decimal digits than the
      interpreter's limit \<open>max_digits\<close> (\<open>sys.get_int_max_str_digits()\<close>: 0 where there is no
      limit, and at least 640 otherwise, 4300 by default). Beyond it \<open>str\<close> raises
      \<open>ValueError\<close>.\<close>
  "str_ok max_digits n = (max_digits = 0 \<or> dec_digits \<bar>n\<bar> \<le> max_digits)"

fun py_contains :: "string \<Rightarrow> string \<Rightarrow> bool" where
  \<comment> \<open>\<open>sub in s\<close>: tried at every position from the left.\<close>
  "py_contains sub [] = (sub = [])"
| "py_contains sub (c # cs) = (prefix sub (c # cs) \<or> py_contains sub cs)"

definition py_endswith :: "string \<Rightarrow> string \<Rightarrow> bool" where
  "py_endswith s suf = suffix suf s"

definition at_dollar :: "string \<Rightarrow> bool" where
  \<comment> \<open>Where \<open>$\<close> matches, given the rest of the subject: at its end, and just before a
      newline that is its last character.\<close>
  "at_dollar rest = (rest = [] \<or> rest = [CHR 0x0A])"

section \<open>Zone to subnet (both scripts)\<close>

fun search_zone_suffix :: "string \<Rightarrow> char option" where
  \<comment> \<open>\<open>re.search(r"-([a-z])$", zone_id)\<close>: the group of the leftmost match.\<close>
  "search_zone_suffix [] = None"
| "search_zone_suffix (c # cs) =
     (case cs of
        l # rest \<Rightarrow>
          if c = CHR ''-'' \<and> is_lower_az l \<and> at_dollar rest then Some l
          else search_zone_suffix cs
      | [] \<Rightarrow> None)"

type_synonym environ = "string \<rightharpoonup> string"

definition get_vswitch_id :: "environ \<Rightarrow> string \<Rightarrow> string option" where
  \<comment> \<open>\<open>select_instance.get_vswitch_id\<close>.\<close>
  "get_vswitch_id env zone_id =
     (case search_zone_suffix zone_id of
        None \<Rightarrow> None
      | Some l \<Rightarrow> env (''ALIYUN_VSWITCH_ID_'' @ [upper_az l]))"

definition create_get_vswitch_id :: "environ \<Rightarrow> string \<Rightarrow> string option" where
  \<comment> \<open>\<open>create_spot_instance.get_vswitch_id\<close>: the same text as the Selector's.\<close>
  "create_get_vswitch_id env zone_id =
     (case search_zone_suffix zone_id of
        None \<Rightarrow> None
      | Some l \<Rightarrow> env (''ALIYUN_VSWITCH_ID_'' @ [upper_az l]))"

section \<open>Selector: query strategies\<close>

datatype json =
    JNull
  | JBool bool
  | JNumber string
  | JString string
  | JArray "json list"
  | JObject "(string \<times> json) list"

datatype loads_result = Loaded json | DecodeError | LoadsRaised

text \<open>
  \<open>json.loads\<close> is taken as given: a function from the text to the parsed value
  (\<open>Loaded\<close>), to \<open>DecodeError\<close> where it raises \<open>JSONDecodeError\<close>, or to \<open>LoadsRaised\<close> where
  it raises another exception (\<open>RecursionError\<close> on deep nesting, \<open>ValueError\<close> on a number
  with too many digits), which no \<open>except\<close> clause of the scripts catches.
\<close>

datatype exc = SubprocessError | OtherError



record select_cfg =
  access_key_id :: string
  access_key_secret :: string
  region_id :: string
  arch :: string
  advisor_binary :: string
  min_cpu :: int
  max_cpu :: int
  min_mem :: int
  max_mem :: int
  arch_param :: string









datatype select_error =
    AllStrategiesFailed
  | NoInstancesMatching int int
  | NoVSwitchConfigured
  | Uncaught exc










text \<open>The zone pattern as the specification words it: the identifier ends in a hyphen and
  one lowercase letter.\<close>

definition spec_zone_letter :: "string \<Rightarrow> char option" where
  "spec_zone_letter z =
     (case rev z of
        l # d # _ \<Rightarrow> if d = CHR ''-'' \<and> is_lower_az l then Some l else None
      | _ \<Rightarrow> None)"

definition ex_environ :: environ where
  "ex_environ = [''ALIYUN_VSWITCH_ID_K'' \<mapsto> ''vsw-k'']"

section \<open>Provisioner: the candidate file\<close>

datatype py_exception = ValueError | TypeError | OverflowError | UnicodeError | OtherException

fun py_split :: "char \<Rightarrow> string \<Rightarrow> string list" where
  \<comment> \<open>\<open>s.split(sep)\<close> for a separator of one character: always at least one part.\<close>
  "py_split sep [] = [[]]"
| "py_split sep (c # cs) =
     (if c = sep then [] # py_split sep cs
      else (case py_split sep cs of p # ps \<Rightarrow> (c # p) # ps | [] \<Rightarrow> [[c]]))"

fun int_body :: "string \<Rightarrow> bool" where
  \<comment> \<open>Decimal digits, with single underscores allowed between two digits.\<close>
  "int_body [] = False"
| "int_body [c] = is_digit c"
| "int_body (c # u # cs) =
     (is_digit c \<and> (if u = CHR ''_'' then int_body cs else int_body (u # cs)))"

definition num_space :: "char \<Rightarrow> bool" where
  \<comment> \<open>The blanks \<open>int\<close> and \<open>float\<close> skip around a number: those of \<open>str.isspace\<close> but
      the four separators 0x1c..0x1f.\<close>
  "num_space c = (of_char c \<in> {9, 10, 11, 12, 13, 32, 133, 160 :: nat})"

definition num_strip :: "string \<Rightarrow> string" where
  "num_strip s = rev (dropWhile num_space (rev (dropWhile num_space s)))"

definition too_many_digits :: "nat \<Rightarrow> string \<Rightarrow> bool" where
  \<comment> \<open>The interpreter's limit on the decimal digits of an integer conversion
      (\<open>sys.get_int_max_str_digits()\<close>: 4300 by default where there is one; 0 is no limit).
      Underscores do not count.\<close>
  "too_many_digits max_digits body =
     (max_digits > 0 \<and> length (filter (\<lambda>c. c \<noteq> CHR ''_'') body) > max_digits)"

definition py_int :: "nat \<Rightarrow> string \<Rightarrow> int option" where
  \<comment> \<open>\<open>int(s)\<close> in base 10, \<open>None\<close> where it raises \<open>ValueError\<close>: blanks stripped at both
      ends, an optional sign, then the digits, no more of them than the interpreter's
      limit \<open>max_digits\<close>.\<close>
  "py_int max_digits s =
     (let t = num_strip s;
          neg = (t \<noteq> [] \<and> hd t = CHR ''-'');
          body = (if t \<noteq> [] \<and> (hd t = CHR ''-'' \<or> hd t = CHR ''+'') then tl t else t)
      in if int_body body \<and> \<not> too_many_digits max_digits body
         then Some ((if neg then - 1 else 1) * dec_value (filter (\<lambda>c. c \<noteq> CHR ''_'') body))
         else None)"

fun skip_lf :: "bool \<Rightarrow> string \<Rightarrow> string" where
  \<comment> \<open>Reading in text mode: \<open>\r\n\<close> and \<open>\r\<close> become \<open>\n\<close>. The flag says that the character
      before was a carriage return, whose line feed is dropped.\<close>
  "skip_lf after_cr [] = []"
| "skip_lf after_cr (c # cs) =
     (if c = CHR 0x0D then CHR 0x0A # skip_lf True cs
      else if c = CHR 0x0A \<and> after_cr then skip_lf False cs
      else c # skip_lf False cs)"

definition univ_newlines :: "string \<Rightarrow> string" where
  "univ_newlines s = skip_lf False s"

fun split_lines :: "string \<Rightarrow> string \<Rightarrow> string list" where
  \<comment> \<open>The lines a text file yields, each with its newline; \<open>cur\<close> is the line being read.\<close>
  "split_lines cur [] = (if cur = [] then [] else [cur])"
| "split_lines cur (c # cs) =
     (if c = CHR 0x0A then (cur @ [c]) # split_lines [] cs else split_lines (cur @ [c]) cs)"

definition file_lines :: "string \<Rightarrow> string list" where
  "file_lines content = split_lines [] (univ_newlines content)"

type_synonym candidate = "string \<times> string \<times> string \<times> string \<times> int option"

datatype file_state = FileText string | FileFails string

type_synonym filesystem = "string \<rightharpoonup> file_state"

fun parse_candidate_lines ::
  "nat \<Rightarrow> candidate list \<Rightarrow> string list \<Rightarrow> py_exception + candidate list" where
  \<comment> \<open>The loop of \<open>parse_candidates_file\<close>, lines 191 to 203; \<open>int\<close> raising ends it.
      \<open>L\<close> is the interpreter's limit on the digits of an integer.\<close>
  "parse_candidate_lines L candidates [] = Inr candidates"
| "parse_candidate_lines L candidates (line # rest) =
     (let line' = py_strip line in
      if line' = [] then parse_candidate_lines L candidates rest
      else
        let parts = py_split (CHR ''|'') line' in
        if length parts \<ge> 4 then
          (if length parts > 4 \<and> parts ! 4 \<noteq> [] then
             (case py_int L (parts ! 4) of
                None \<Rightarrow> Inl ValueError
              | Some n \<Rightarrow>
                  parse_candidate_lines L
                    (candidates @ [(parts ! 0, parts ! 1, parts ! 2, parts ! 3, Some n)]) rest)
           else
             parse_candidate_lines L
               (candidates @ [(parts ! 0, parts ! 1, parts ! 2, parts ! 3, None)]) rest)
        else parse_candidate_lines L candidates rest)"

definition parse_candidates_file ::
  "filesystem \<Rightarrow> nat \<Rightarrow> string \<Rightarrow> py_exception + candidate list" where
  \<comment> \<open>\<open>fs path\<close> is \<open>None\<close> when there is no regular file at \<open>path\<close>, \<open>FileText\<close> with its
      text when there is one that is read to its end, and \<open>FileFails\<close> with the text of the
      lines read so far when opening, reading or decoding it raises (nothing catches that).\<close>
  "parse_candidates_file fs L candidates_file =
     (case fs candidates_file of
        None \<Rightarrow> Inr []
      | Some (FileText content) \<Rightarrow> parse_candidate_lines L [] (file_lines content)
      | Some (FileFails content) \<Rightarrow>
          (case parse_candidate_lines L [] (file_lines content) of
             Inl e \<Rightarrow> Inl e
           | Inr candidates \<Rightarrow> Inl OtherException))"

text \<open>The records of a candidate file as the specification words them: the fields of every
  non-blank line that has at least four of them.\<close>

definition record_fields :: "string list \<Rightarrow> string list list" where
  "record_fields lines =
     filter (\<lambda>parts. length parts \<ge> 4)
       (map (py_split (CHR ''|'')) (filter (\<lambda>l. l \<noteq> []) (map py_strip lines)))"

definition fifth_ok :: "nat \<Rightarrow> string list \<Rightarrow> bool" where
  \<comment> \<open>A fifth field that is present and not empty is text that \<open>int\<close> accepts.\<close>
  "fifth_ok L parts = (length parts > 4 \<and> parts ! 4 \<noteq> [] \<longrightarrow> py_int L (parts ! 4) \<noteq> None)"

definition record_of :: "nat \<Rightarrow> string list \<Rightarrow> candidate" where
  "record_of L parts =
     (parts ! 0, parts ! 1, parts ! 2, parts ! 3,
      if length parts > 4 \<and> parts ! 4 \<noteq> [] then py_int L (parts ! 4) else None)"

definition ex_candidates_text :: string where
  "ex_candidates_text =
     ''ecs.c7.2xlarge|cn-hangzhou-k|vsw-k|0.4800|8'' @ [CHR 0x0A] @
     [CHR 0x0A] @
     ''too|few|fields'' @ [CHR 0x0A] @
     ''ecs.g7.large|cn-hangzhou-j|vsw-j|0.1200|'' @ [CHR 0x0D, CHR 0x0A] @
     ''ecs.c6.xlarge|cn-hangzhou-i|vsw-i|0.2400''"

definition ex_filesystem :: filesystem where
  "ex_filesystem = [''/tmp/candidates.txt'' \<mapsto> FileText ex_candidates_text]"

definition ex_bad_filesystem :: filesystem where
  \<comment> \<open>A candidate file with a fifth field that is no integer, and one that cannot be
      opened.\<close>
  "ex_bad_filesystem =
     [''/tmp/candidates.txt'' \<mapsto> FileText ''ecs.c7.2xlarge|cn-hangzhou-k|vsw-k|0.4800|eight'',
      ''/tmp/partial.txt'' \<mapsto> FileFails []]"

section \<open>Provisioner: user data\<close>

text \<open>
  The boot script is text that may hold any character, so it is a list of code points;
  bytes are numbers below 256.
\<close>

type_synonym pytext = "nat list"

definition utf8_encode_cp :: "nat \<Rightarrow> nat list option" where
  \<comment> \<open>\<open>str.encode("utf-8")\<close> on one code point; \<open>None\<close> is \<open>UnicodeEncodeError\<close>, raised
      for a surrogate.\<close>
  "utf8_encode_cp c =
     (if c < 0x80 then Some [c]
      else if c < 0x800 then Some [0xC0 + c div 64, 0x80 + c mod 64]
      else if c < 0x10000 then
        (if 0xD800 \<le> c \<and> c \<le> 0xDFFF then None
         else Some [0xE0 + c div 4096, 0x80 + (c div 64) mod 64, 0x80 + c mod 64])
      else if c < 0x110000 then
        Some [0xF0 + c div 262144, 0x80 + (c div 4096) mod 64,
              0x80 + (c div 64) mod 64, 0x80 + c mod 64]
      else None)"

fun utf8_encode :: "pytext \<Rightarrow> nat list option" where
  "utf8_encode [] = Some []"
| "utf8_encode (c # cs) =
     (case utf8_encode_cp c of
        None \<Rightarrow> None
      | Some bs \<Rightarrow> (case utf8_encode cs of None \<Rightarrow> None | Some rest \<Rightarrow> Some (bs @ rest)))"

definition b64_alphabet :: string where
  "b64_alphabet = ''ABCDEFGHIJKLMNOPQRSTUVWXYZabcdefghijklmnopqrstuvwxyz0123456789+/''"

definition b64_char :: "nat \<Rightarrow> char" where
  "b64_char i = b64_alphabet ! i"

fun b64encode :: "nat list \<Rightarrow> string" where
  \<comment> \<open>\<open>base64.b64encode\<close>: three bytes to four characters, the last group padded.\<close>
  "b64encode [] = []"
| "b64encode [a] = [b64_char (a div 4), b64_char ((a mod 4) * 16), CHR ''='', CHR ''='']"
| "b64encode [a, b] =
     [b64_char (a div 4), b64_char ((a mod 4) * 16 + b div 16), b64_char ((b mod 16) * 4),
      CHR ''='']"
| "b64encode (a # b # c # rest) =
     [b64_char (a div 4), b64_char ((a mod 4) * 16 + b div 16),
      b64_char ((b mod 16) * 4 + c div 64), b64_char (c mod 64)] @ b64encode rest"

definition encode_user_data :: "pytext \<Rightarrow> py_exception + string" where
  \<comment> \<open>\<open>Inl\<close> is the \<open>UnicodeEncodeError\<close> that \<open>encode_user_data\<close> turns into \<open>error_exit\<close>.\<close>
  "encode_user_data user_data =
     (case utf8_encode user_data of
        None \<Rightarrow> Inl UnicodeError
      | Some bs \<Rightarrow> Inr (b64encode bs))"

section \<open>Provisioner: creation calls\<close>

definition truthy_opt :: "string option \<Rightarrow> bool" where
  \<comment> \<open>The truth value of an \<open>Optional[str]\<close>.\<close>
  "truthy_opt v = (v \<noteq> None \<and> v \<noteq> Some [])"

fun truthy :: "json \<Rightarrow> bool" where
  \<comment> \<open>The truth value of a parsed JSON value. A number is kept as the text \<open>str\<close> gives for
      it, which is \<open>0\<close>, \<open>0.0\<close> or \<open>-0.0\<close> exactly for the numbers that are false.\<close>
  "truthy JNull = False"
| "truthy (JBool b) = b"
| "truthy (JNumber t) = (t \<notin> {''0'', ''0.0'', ''-0.0''})"
| "truthy (JString s) = (s \<noteq> [])"
| "truthy (JArray xs) = (xs \<noteq> [])"
| "truthy (JObject kvs) = (kvs \<noteq> [])"

fun dict_get :: "(string \<times> json) list \<Rightarrow> string \<Rightarrow> json \<Rightarrow> json" where
  \<comment> \<open>\<open>d.get(key, default)\<close>; a parsed object is the list of its items, with distinct keys.\<close>
  "dict_get [] key dflt = dflt"
| "dict_get ((k, v) # kvs) key dflt = (if k = key then v else dict_get kvs key dflt)"

definition match_instance_id :: "string \<Rightarrow> string option" where
  \<comment> \<open>The pattern \<open>"InstanceId"\s*:\s*"([^"]+)"\<close> matched at the start of \<open>s\<close>: its group.\<close>
  "match_instance_id s =
     (if prefix [CHR 0x22, CHR ''I'', CHR ''n'', CHR ''s'', CHR ''t'', CHR ''a'', CHR ''n'',
                 CHR ''c'', CHR ''e'', CHR ''I'', CHR ''d'', CHR 0x22] s then
        (case dropWhile py_isspace (drop 12 s) of
           c # r \<Rightarrow>
             if c = CHR '':'' then
               (case dropWhile py_isspace r of
                  q # r' \<Rightarrow>
                    if q = CHR 0x22 then
                      (let g = takeWhile (\<lambda>x. x \<noteq> CHR 0x22) r';
                           rest = dropWhile (\<lambda>x. x \<noteq> CHR 0x22) r'
                       in if g \<noteq> [] \<and> rest \<noteq> [] then Some g else None)
                    else None
                | [] \<Rightarrow> None)
             else None
         | [] \<Rightarrow> None)
      else None)"

fun search_instance_id :: "string \<Rightarrow> string option" where
  \<comment> \<open>\<open>re.search\<close> with that pattern: the leftmost match.\<close>
  "search_instance_id [] = None"
| "search_instance_id (c # cs) =
     (case match_instance_id (c # cs) of
        Some g \<Rightarrow> Some g
      | None \<Rightarrow> search_instance_id cs)"

definition extract_instance_id :: "(string \<Rightarrow> loads_result) \<Rightarrow> string \<Rightarrow> py_exception + json" where
  \<comment> \<open>\<open>extract_instance_id\<close>; the result \<open>JNull\<close> is Python's \<open>None\<close>. \<open>loads\<close> is
      \<open>json.loads\<close>: its \<open>JSONDecodeError\<close> is caught and leads to the textual pattern, any
      other exception it raises leaves the function (\<open>Inl\<close>).\<close>
  "extract_instance_id loads response =
     (let fallback = (case search_instance_id response of Some g \<Rightarrow> JString g | None \<Rightarrow> JNull)
      in case loads response of
           LoadsRaised \<Rightarrow> Inl OtherException
         | DecodeError \<Rightarrow> Inr fallback
         | Loaded (JObject data) \<Rightarrow>
             (case dict_get data ''InstanceIdSets'' (JObject []) of
                JObject instance_id_sets \<Rightarrow>
                  (case dict_get instance_id_sets ''InstanceIdSet'' (JArray []) of
                     JArray instance_id_set \<Rightarrow>
                       (case instance_id_set of
                          first # _ \<Rightarrow> Inr first
                        | [] \<Rightarrow> Inr fallback)
                   | _ \<Rightarrow> Inr fallback)
              | _ \<Rightarrow> Inr fallback)
         | Loaded other \<Rightarrow> Inr fallback)"

datatype cli_result =
    Ran int string string
  | CallFailed string
  | CallRaised

record instance_args =
  a_region_id :: string
  a_image_id :: string
  a_instance_type :: string
  a_security_group_id :: string
  a_vswitch_id :: string
  a_instance_name :: string
  a_key_pair_name :: "string option"
  a_ram_role_name :: "string option"
  a_spot_strategy :: string
  a_spot_price_limit :: "string option"
  a_user_data_b64 :: "string option"

definition run_instances_command :: "instance_args \<Rightarrow> string \<Rightarrow> string list" where
  \<comment> \<open>The command line of \<open>create_instance\<close>, lines 307 to 354.\<close>
  "run_instances_command a system_disk_category =
     [''aliyun'', ''ecs'', ''RunInstances'',
      ''--RegionId'', a_region_id a,
      ''--ImageId'', a_image_id a,
      ''--InstanceType'', a_instance_type a,
      ''--SecurityGroupId'', a_security_group_id a,
      ''--VSwitchId'', a_vswitch_id a,
      ''--InstanceName'', a_instance_name a,
      ''--InstanceChargeType'', ''PostPaid'',
      ''--SystemDisk.Category'', system_disk_category,
      ''--SecurityEnhancementStrategy'', ''Deactive'',
      ''--Tag.1.Key'', ''GITHUB_RUNNER_TYPE'',
      ''--Tag.1.Value'', ''aliyun-ecs-spot'']
     @ (if truthy_opt (a_key_pair_name a) then [''--KeyPairName'', the (a_key_pair_name a)] else [])
     @ (if truthy_opt (a_ram_role_name a) then [''--RamRoleName'', the (a_ram_role_name a)] else [])
     @ (if a_spot_strategy a = ''SpotWithPriceLimit'' \<and> truthy_opt (a_spot_price_limit a)
        then [''--SpotStrategy'', ''SpotWithPriceLimit'',
              ''--SpotPriceLimit'', the (a_spot_price_limit a)]
        else [''--SpotStrategy'', ''SpotAsPriceGo''])
     @ (if truthy_opt (a_user_data_b64 a) then [''--UserData'', the (a_user_data_b64 a)] else [])"

record create_env =
  cli :: "nat \<Rightarrow> string list \<Rightarrow> cli_result"
  json_loads :: "string \<Rightarrow> loads_result"
  detect_disk :: "string \<Rightarrow> string \<Rightarrow> string"
  files :: filesystem
  int_max_str_digits :: nat

text \<open>
  The cloud CLI is the environment: \<open>cli E n cmd\<close> is what the \<open>n\<close>-th creation call (counted
  from 0) answers to the command \<open>cmd\<close>: a finished process with its exit code, output and
  error text, an exception \<open>create_instance\<close> catches (with its message), or one it does not.
  \<open>detect_disk E\<close> stands for \<open>get_supported_disk_category\<close>, which \<open>create_instance\<close> calls
  only when it is given no disk category; \<open>main\<close> always gives one.
\<close>

definition create_command :: "create_env \<Rightarrow> instance_args \<Rightarrow> string option \<Rightarrow> string list" where
  "create_command E a system_disk_category =
     run_instances_command a
       (if truthy_opt system_disk_category then the system_disk_category
        else detect_disk E (a_region_id a) (a_instance_type a))"

definition create_instance ::
  "create_env \<Rightarrow> nat \<Rightarrow> instance_args \<Rightarrow> string option \<Rightarrow> py_exception + int \<times> string" where
  \<comment> \<open>\<open>create_instance\<close> as the \<open>n\<close>-th creation call: the exit code and the output followed
      by the error text.\<close>
  "create_instance E n a system_disk_category =
     (case cli E n (create_command E a system_disk_category) of
        Ran returncode out err \<Rightarrow> Inr (returncode, out @ err)
      | CallFailed msg \<Rightarrow> Inr (1, msg)
      | CallRaised \<Rightarrow> Inl OtherException)"

datatype verdict = Created json | TryNext | GiveUp | Died

definition check_response :: "(string \<Rightarrow> loads_result) \<Rightarrow> int \<Rightarrow> string \<Rightarrow> verdict" where
  \<comment> \<open>What both loops of \<open>main\<close> do with the result of a creation call (lines 507 to 537
      and 598 to 628): print the identifier and exit, go on to the next disk category,
      leave the loop, or die of the exception \<open>extract_instance_id\<close> let through.\<close>
  "check_response loads exit_code response =
     (if exit_code = 0 \<and> response \<noteq> [] then
        (case extract_instance_id loads response of
           Inl e \<Rightarrow> Died
         | Inr instance_id \<Rightarrow>
             if truthy instance_id \<and> instance_id \<noteq> JString ''null'' then Created instance_id
             else TryNext)
      else if py_contains ''InvalidSystemDiskCategory'' response
              \<or> py_contains ''not support'' (py_lower response) then TryNext
      else GiveUp)"

definition disk_categories :: "string list" where
  "disk_categories = [''cloud_essd'', ''cloud_ssd'', ''cloud_efficiency'']"

datatype disk_outcome = DiskCreated json | DiskFailed "string option" | DiskRaised

fun disk_loop ::
  "create_env \<Rightarrow> instance_args \<Rightarrow> string list list \<Rightarrow> string option \<Rightarrow> string list
     \<Rightarrow> disk_outcome \<times> string list list" where
  \<comment> \<open>The loop over the disk categories. \<open>issued\<close> are the commands of the creation calls
      made so far, \<open>last_response\<close> the response of the last_response one of this loop.\<close>
  "disk_loop E a issued last_response [] = (DiskFailed last_response, issued)"
| "disk_loop E a issued last_response (disk_category # rest) =
     (case create_instance E (length issued) a (Some disk_category) of
        Inl e \<Rightarrow> (DiskRaised, issued @ [create_command E a (Some disk_category)])
      | Inr (exit_code, response) \<Rightarrow>
          (case check_response (json_loads E) exit_code response of
             Created instance_id \<Rightarrow>
               (DiskCreated instance_id, issued @ [create_command E a (Some disk_category)])
           | TryNext \<Rightarrow>
               disk_loop E a (issued @ [create_command E a (Some disk_category)])
                 (Some response) rest
           | GiveUp \<Rightarrow>
               (DiskFailed (Some response),
                issued @ [create_command E a (Some disk_category)])
           | Died \<Rightarrow> (DiskRaised, issued @ [create_command E a (Some disk_category)])))"

record create_cfg =
  c_region_id :: string
  c_image_id :: string
  c_security_group_id :: string
  c_instance_name :: string
  c_key_pair_name :: "string option"
  c_ram_role_name :: "string option"
  c_instance_type :: "string option"
  c_vswitch_id :: "string option"
  c_spot_price_limit :: "string option"
  c_candidates_file :: "string option"
  c_user_data_content :: "pytext option"

datatype create_error =
    AllCandidatesFailed nat
  | AllDiskCategoriesFailed "string option"
  | InstanceTypeRequired
  | VSwitchRequired
  | EncodeFailed
  | UncaughtException

datatype outcome = Succeeded json | Failed create_error

fun exit_status :: "outcome \<Rightarrow> int" where
  \<comment> \<open>\<open>sys.exit(0)\<close> after the identifier is printed; 1 from \<open>error_exit\<close> and from an
      exception nothing catches.\<close>
  "exit_status (Succeeded i) = 0"
| "exit_status (Failed e) = 1"

fun printed :: "outcome \<Rightarrow> json list" where
  \<comment> \<open>The values printed on standard output, one \<open>print\<close> call each.\<close>
  "printed (Succeeded i) = [i]"
| "printed (Failed e) = []"

definition user_data_b64_of :: "pytext option \<Rightarrow> py_exception + string option" where
  \<comment> \<open>Lines 476 to 478 and 559 to 561.\<close>
  "user_data_b64_of user_data_content =
     (if user_data_content \<noteq> None \<and> user_data_content \<noteq> Some [] then
        (case encode_user_data (the user_data_content) of
           Inl e \<Rightarrow> Inl e
         | Inr b \<Rightarrow> Inr (Some b))
      else Inr None)"

definition candidate_args :: "create_cfg \<Rightarrow> candidate \<Rightarrow> string option \<Rightarrow> instance_args" where
  \<comment> \<open>The arguments of lines 492 to 505.\<close>
  "candidate_args C cand user_data_b64 =
     (case cand of (cand_instance_type, cand_zone_id, cand_vswitch_id, cand_spot_price_limit, cores) \<Rightarrow>
        \<lparr> a_region_id = c_region_id C, a_image_id = c_image_id C,
          a_instance_type = cand_instance_type,
          a_security_group_id = c_security_group_id C,
          a_vswitch_id = cand_vswitch_id,
          a_instance_name = c_instance_name C,
          a_key_pair_name = c_key_pair_name C,
          a_ram_role_name = c_ram_role_name C,
          a_spot_strategy =
            (if cand_spot_price_limit \<noteq> [] then ''SpotWithPriceLimit'' else ''SpotAsPriceGo''),
          a_spot_price_limit = Some cand_spot_price_limit,
          a_user_data_b64 = user_data_b64 \<rparr>)"

fun candidates_loop ::
  "create_env \<Rightarrow> create_cfg \<Rightarrow> string list list \<Rightarrow> candidate list
     \<Rightarrow> outcome option \<times> string list list" where
  \<comment> \<open>The loop over the candidates, lines 455 to 546; \<open>None\<close> when it runs to its end.\<close>
  "candidates_loop E C issued [] = (None, issued)"
| "candidates_loop E C issued (cand # rest) =
     (case cand of (cand_instance_type, cand_zone_id, cand_vswitch_id, cand_spot_price_limit, cores) \<Rightarrow>
        if cand_vswitch_id = [] then candidates_loop E C issued rest
        else
          (case user_data_b64_of (c_user_data_content C) of
             Inl e \<Rightarrow> (Some (Failed EncodeFailed), issued)
           | Inr user_data_b64 \<Rightarrow>
               (case disk_loop E (candidate_args C cand user_data_b64) issued None disk_categories of
                  (DiskCreated instance_id, issued') \<Rightarrow> (Some (Succeeded instance_id), issued')
                | (DiskRaised, issued') \<Rightarrow> (Some (Failed UncaughtException), issued')
                | (DiskFailed last_response, issued') \<Rightarrow> candidates_loop E C issued' rest)))"

definition single_args :: "create_cfg \<Rightarrow> string option \<Rightarrow> instance_args" where
  \<comment> \<open>The arguments of lines 583 to 596.\<close>
  "single_args C user_data_b64 =
     \<lparr> a_region_id = c_region_id C, a_image_id = c_image_id C,
       a_instance_type = the (c_instance_type C),
       a_security_group_id = c_security_group_id C,
       a_vswitch_id = the (c_vswitch_id C),
       a_instance_name = c_instance_name C,
       a_key_pair_name = c_key_pair_name C,
       a_ram_role_name = c_ram_role_name C,
       a_spot_strategy =
         (if truthy_opt (c_spot_price_limit C) then ''SpotWithPriceLimit'' else ''SpotAsPriceGo''),
       a_spot_price_limit = c_spot_price_limit C,
       a_user_data_b64 = user_data_b64 \<rparr>"

definition multi_attempt :: "create_env \<Rightarrow> create_cfg \<Rightarrow> bool" where
  \<comment> \<open>The test of line 449.\<close>
  "multi_attempt E C =
     (truthy_opt (c_candidates_file C) \<and> files E (the (c_candidates_file C)) \<noteq> None)"

definition create_main :: "create_env \<Rightarrow> create_cfg \<Rightarrow> outcome \<times> string list list" where
  \<comment> \<open>\<open>main\<close> from line 448 on, with the values of its variables there in \<open>C\<close>: how the
      process ends, and the commands of the creation calls it made, in order.\<close>
  "create_main E C =
     (if multi_attempt E C then
        (case parse_candidates_file (files E) (int_max_str_digits E) (the (c_candidates_file C)) of
           Inl e \<Rightarrow> (Failed UncaughtException, [])
         | Inr candidates \<Rightarrow>
             (case candidates_loop E C [] candidates of
                (Some result, issued) \<Rightarrow> (result, issued)
              | (None, issued) \<Rightarrow> (Failed (AllCandidatesFailed (length candidates)), issued)))
      else if \<not> truthy_opt (c_instance_type C) then (Failed InstanceTypeRequired, [])
      else if \<not> truthy_opt (c_vswitch_id C) then (Failed VSwitchRequired, [])
      else
        (case user_data_b64_of (c_user_data_content C) of
           Inl e \<Rightarrow> (Failed EncodeFailed, [])
         | Inr user_data_b64 \<Rightarrow>
             (case disk_loop E (single_args C user_data_b64) [] None disk_categories of
                (DiskCreated instance_id, issued) \<Rightarrow> (Succeeded instance_id, issued)
              | (DiskRaised, issued) \<Rightarrow> (Failed UncaughtException, issued)
              | (DiskFailed last_response, issued) \<Rightarrow> (Failed (AllDiskCategoriesFailed last_response), issued))))"

section \<open>Provisioner: vocabulary of the claims\<close>

definition unsupported_disk :: "string \<Rightarrow> bool" where
  \<comment> \<open>The test of lines 529 and 618.\<close>
  "unsupported_disk response =
     (py_contains ''InvalidSystemDiskCategory'' response
      \<or> py_contains ''not support'' (py_lower response))"

definition call_response :: "cli_result \<Rightarrow> (int \<times> string) option" where
  \<comment> \<open>The pair \<open>create_instance\<close> returns for an answer of the CLI, if it returns.\<close>
  "call_response r =
     (case r of
        Ran returncode out err \<Rightarrow> Some (returncode, out @ err)
      | CallFailed msg \<Rightarrow> Some (1, msg)
      | CallRaised \<Rightarrow> None)"

definition call_verdict :: "create_env \<Rightarrow> nat \<Rightarrow> string list \<Rightarrow> verdict option" where
  \<comment> \<open>What \<open>main\<close> makes of the \<open>n\<close>-th creation call when its command is \<open>cmd\<close>.\<close>
  "call_verdict E n cmd =
     (case call_response (cli E n cmd) of
        None \<Rightarrow> None
      | Some (exit_code, response) \<Rightarrow> Some (check_response (json_loads E) exit_code response))"

definition ex_create_cfg :: create_cfg where
  "ex_create_cfg =
     \<lparr> c_region_id = ''cn-hangzhou'', c_image_id = ''m-1'', c_security_group_id = ''sg-1'',
       c_instance_name = ''runner'', c_key_pair_name = None, c_ram_role_name = None,
       c_instance_type = Some ''ecs.c7.large'', c_vswitch_id = Some ''vsw-k'',
       c_spot_price_limit = None, c_candidates_file = None,
       c_user_data_content = None \<rparr>"

definition ex_args :: instance_args where
  "ex_args = single_args ex_create_cfg None"

definition quoted :: "string \<Rightarrow> string" where
  "quoted s = [CHR 0x22] @ s @ [CHR 0x22]"

definition ex_json_loads :: "string \<Rightarrow> loads_result" where
  \<comment> \<open>\<open>json.loads\<close> on the few responses of the examples; the last but one is an array
      nested too deep for it.\<close>
  "ex_json_loads s =
     (if s = ''{}'' then Loaded (JObject [])
      else if s = ''{'' @ quoted ''InstanceId'' @ '': '' @ quoted ''null'' @ ''}''
        then Loaded (JObject [(''InstanceId'', JString ''null'')])
      else if s = ''{'' @ quoted ''InstanceIdSets'' @ '': {'' @ quoted ''InstanceIdSet'' @ '': [''
                  @ quoted ''i-abc'' @ '']}}''
        then Loaded (JObject [(''InstanceIdSets'', JObject [(''InstanceIdSet'', JArray [JString ''i-abc''])])])
      else if s = replicate 2000 (CHR ''['') then LoadsRaised
      else DecodeError)"

definition ex_env_of :: "(nat \<Rightarrow> string list \<Rightarrow> cli_result) \<Rightarrow> create_env" where
  "ex_env_of c =
     \<lparr> cli = c, json_loads = ex_json_loads, detect_disk = (\<lambda>r t. ''cloud_essd''),
       files = Map.empty, int_max_str_digits = 4300 \<rparr>"

definition ex_null_response :: string where
  "ex_null_response = ''{'' @ quoted ''InstanceId'' @ '': '' @ quoted ''null'' @ ''}''"

definition ex_cli_const :: "cli_result \<Rightarrow> nat \<Rightarrow> string list \<Rightarrow> cli_result" where
  \<comment> \<open>A CLI that gives every call the same answer.\<close>
  "ex_cli_const r n cmd = r"

definition ex_commands :: "string list list" where
  "ex_commands = map (\<lambda>d. run_instances_command ex_args d) disk_categories"

definition ex_unsupported :: cli_result where
  "ex_unsupported = Ran 255 [] ''ErrorCode: InvalidSystemDiskCategory.ValueNotSupported''"

definition ex_no_stock :: cli_result where
  "ex_no_stock = Ran 255 [] ''ErrorCode: OperationDenied.NoStock''"

definition ex_candidate_1 :: candidate where
  "ex_candidate_1 = (''ecs.c7.2xlarge'', ''cn-hangzhou-k'', ''vsw-k'', ''0.4800'', Some 8)"

definition ex_candidate_2 :: candidate where
  "ex_candidate_2 = (''ecs.g7.2xlarge'', ''cn-hangzhou-j'', ''vsw-j'', ''0.5200'', Some 8)"

definition ex_candidate_3 :: candidate where
  "ex_candidate_3 = (''ecs.c6.2xlarge'', ''cn-hangzhou-i'', ''vsw-i'', ''0.5600'', None)"

definition is_created :: "verdict \<Rightarrow> bool" where
  "is_created v = (case v of Created i \<Rightarrow> True | _ \<Rightarrow> False)"

definition failed_attempt :: "(string \<Rightarrow> loads_result) \<Rightarrow> int \<Rightarrow> string \<Rightarrow> bool" where
  \<comment> \<open>A creation call that returned is a failure: a non-zero exit code, an empty response,
      or a response whose identifier is extracted and is not usable (lines 508 to 510).\<close>
  "failed_attempt loads exit_code response =
     (exit_code \<noteq> 0 \<or> response = [] \<or>
      (case extract_instance_id loads response of
         Inl e \<Rightarrow> False
       | Inr instance_id \<Rightarrow> \<not> (truthy instance_id \<and> instance_id \<noteq> JString ''null'')))"

definition unsupported_failure :: "create_env \<Rightarrow> nat \<Rightarrow> string list \<Rightarrow> bool" where
  \<comment> \<open>The \<open>n\<close>-th creation call, made with \<open>cmd\<close>, fails with an unsupported-disk-category
      response: it returns, it is a failure, and its response has the pattern.\<close>
  "unsupported_failure E n cmd =
     (case call_response (cli E n cmd) of
        None \<Rightarrow> False
      | Some (exit_code, response) \<Rightarrow>
          failed_attempt (json_loads E) exit_code response \<and> unsupported_disk response)"

definition cand_vswitch_id :: "candidate \<Rightarrow> string" where
  "cand_vswitch_id cand = (case cand of (t, z, v, p, n) \<Rightarrow> v)"

definition candidate_command ::
  "create_env \<Rightarrow> create_cfg \<Rightarrow> string option \<Rightarrow> candidate \<Rightarrow> string \<Rightarrow> string list" where
  \<comment> \<open>The command of the creation call for a candidate and a disk category.\<close>
  "candidate_command E C user_data_b64 cand d =
     create_command E (candidate_args C cand user_data_b64) (Some d)"

definition ex_created_response :: string where
  "ex_created_response =
     ''{'' @ quoted ''InstanceIdSets'' @ '': {'' @ quoted ''InstanceIdSet'' @ '': [''
       @ quoted ''i-abc'' @ '']}}''"

definition ex_cli_seven :: "nat \<Rightarrow> string list \<Rightarrow> cli_result" where
  \<comment> \<open>A CLI whose first seven answers are the unsupported disk category.\<close>
  "ex_cli_seven n cmd = (if n < 7 then ex_unsupported else Ran 0 ex_created_response [])"

definition ex_three_text :: string where
  "ex_three_text =
     ''ecs.c7.2xlarge|cn-hangzhou-k|vsw-k|0.4800|8'' @ [CHR 0x0A] @
     ''ecs.g7.2xlarge|cn-hangzhou-j|vsw-j|0.5200|8'' @ [CHR 0x0A] @
     ''ecs.c6.2xlarge|cn-hangzhou-i|vsw-i|0.5600|'' @ [CHR 0x0A]"

definition ex_multi_env :: create_env where
  "ex_multi_env =
     \<lparr> cli = ex_cli_seven, json_loads = ex_json_loads, detect_disk = (\<lambda>r t. ''cloud_essd''),
       files = [''/tmp/candidates.txt'' \<mapsto> FileText ex_three_text],
       int_max_str_digits = 4300 \<rparr>"

definition ex_multi_cfg :: create_cfg where
  "ex_multi_cfg =
     \<lparr> c_region_id = ''cn-hangzhou'', c_image_id = ''m-1'', c_security_group_id = ''sg-1'',
       c_instance_name = ''runner'', c_key_pair_name = None, c_ram_role_name = None,
       c_instance_type = None, c_vswitch_id = None,
       c_spot_price_limit = None, c_candidates_file = Some ''/tmp/candidates.txt'',
       c_user_data_content = Some [35, 33, 10] \<rparr>"

definition json_instance_id :: "loads_result \<Rightarrow> json option" where
  \<comment> \<open>The structured field as the specification words it: the first element of
      \<open>InstanceIdSets.InstanceIdSet\<close> of a response that parses to an object.\<close>
  "json_instance_id parsed =
     (case parsed of
        Loaded (JObject data) \<Rightarrow>
          (case map_of data ''InstanceIdSets'' of
             Some (JObject sets) \<Rightarrow>
               (case map_of sets ''InstanceIdSet'' of
                  Some (JArray (first # others)) \<Rightarrow> Some first
                | _ \<Rightarrow> None)
           | _ \<Rightarrow> None)
      | _ \<Rightarrow> None)"

definition usable_id :: "json \<Rightarrow> bool" where
  \<comment> \<open>The test of lines 510 and 601.\<close>
  "usable_id instance_id = (truthy instance_id \<and> instance_id \<noteq> JString ''null'')"

definition succeeded_call :: "create_env \<Rightarrow> nat \<Rightarrow> string list \<Rightarrow> bool" where
  \<comment> \<open>The \<open>n\<close>-th creation call, made with \<open>cmd\<close>, is a success.\<close>
  "succeeded_call E n cmd =
     (case call_verdict E n cmd of Some v \<Rightarrow> is_created v | None \<Rightarrow> False)"

definition went_on :: "create_env \<Rightarrow> string list list \<Rightarrow> bool" where
  \<comment> \<open>Every call of \<open>issued\<close> returned and was a failure, after which the run goes on.\<close>
  "went_on E issued =
     (\<forall>k < length issued.
        call_verdict E k (issued ! k) = Some TryNext \<or> call_verdict E k (issued ! k) = Some GiveUp)"

definition ends_with :: "create_env \<Rightarrow> string list list \<Rightarrow> verdict option \<Rightarrow> bool" where
  \<comment> \<open>The run went on after every call of \<open>issued\<close> but the last, which has the verdict \<open>v\<close>.\<close>
  "ends_with E issued v =
     (issued \<noteq> [] \<and> went_on E (butlast issued) \<and>
      call_verdict E (length issued - 1) (last issued) = v)"

definition ex_deep_response :: string where
  \<comment> \<open>Two thousand opening brackets: \<open>json.loads\<close> raises \<open>RecursionError\<close>.\<close>
  "ex_deep_response = replicate 2000 (CHR ''['')"

section \<open>UserData writer\<close>

fun index_of :: "'a \<Rightarrow> 'a list \<Rightarrow> nat option" where
  "index_of x [] = None"
| "index_of x (y # ys) = (if x = y then Some 0 else map_option Suc (index_of x ys))"

definition b64_index :: "char \<Rightarrow> nat option" where
  \<comment> \<open>The value of a character of the base64 alphabet.\<close>
  "b64_index c = index_of c b64_alphabet"

datatype b64_error = BinasciiError | AsciiValueError

fun a2b_base64 :: "nat \<Rightarrow> nat \<Rightarrow> nat \<Rightarrow> nat list \<Rightarrow> string \<Rightarrow> b64_error + nat list" where
  \<comment> \<open>\<open>binascii.a2b_base64\<close> without validation, as \<open>base64.b64decode\<close> calls it:
      \<open>quad_pos\<close> is the position in the group of four, \<open>leftchar\<close> the bits not yet
      written, \<open>pad_count\<close> the padding seen since the last data character. A character
      outside the alphabet is skipped; padding that completes a group ends the input;
      an incomplete group at the end is an error.\<close>
  "a2b_base64 quad_pos leftchar pad_count out [] =
     (if quad_pos \<noteq> 0 then Inl BinasciiError else Inr out)"
| "a2b_base64 quad_pos leftchar pad_count out (c # cs) =
     (if c = CHR ''='' then
        (if quad_pos \<ge> 2 \<and> quad_pos + (pad_count + 1) \<ge> 4 then Inr out
         else a2b_base64 quad_pos leftchar (if quad_pos \<ge> 2 then pad_count + 1 else pad_count)
                out cs)
      else
        (case b64_index c of
           None \<Rightarrow> a2b_base64 quad_pos leftchar pad_count out cs
         | Some v \<Rightarrow>
             if quad_pos = 0 then a2b_base64 1 v 0 out cs
             else if quad_pos = 1 then
               a2b_base64 2 (v mod 16) 0 (out @ [(leftchar * 4 + v div 16) mod 256]) cs
             else if quad_pos = 2 then
               a2b_base64 3 (v mod 4) 0 (out @ [(leftchar * 16 + v div 4) mod 256]) cs
             else a2b_base64 0 0 0 (out @ [(leftchar * 64 + v) mod 256]) cs))"

definition b64decode :: "string \<Rightarrow> b64_error + nat list" where
  \<comment> \<open>\<open>base64.b64decode\<close> of a \<open>str\<close>: a character that is not ASCII raises \<open>ValueError\<close>,
      which is not a \<open>binascii.Error\<close>.\<close>
  "b64decode s =
     (if \<exists>c \<in> set s. (of_char c :: nat) \<ge> 128 then Inl AsciiValueError
      else a2b_base64 0 0 0 [] s)"

definition is_cont :: "nat \<Rightarrow> bool" where
  \<comment> \<open>A continuation byte of UTF-8.\<close>
  "is_cont b = (0x80 \<le> b \<and> b < 0xC0)"

fun utf8_decode :: "nat list \<Rightarrow> pytext option" where
  \<comment> \<open>\<open>bytes.decode("utf-8")\<close>, \<open>None\<close> where it raises \<open>UnicodeDecodeError\<close>: a truncated
      or overlong sequence, a surrogate, or a value above 0x10FFFF.\<close>
  "utf8_decode [] = Some []"
| "utf8_decode (b # bs) =
     (if b < 0x80 then map_option (\<lambda>t. b # t) (utf8_decode bs)
      else if 0xC2 \<le> b \<and> b < 0xE0 then
        (case bs of
           b1 # r \<Rightarrow>
             if is_cont b1
             then map_option (\<lambda>t. ((b - 0xC0) * 64 + (b1 - 0x80)) # t) (utf8_decode r)
             else None
         | _ \<Rightarrow> None)
      else if 0xE0 \<le> b \<and> b < 0xF0 then
        (case bs of
           b1 # b2 # r \<Rightarrow>
             (let cp = (b - 0xE0) * 4096 + (b1 - 0x80) * 64 + (b2 - 0x80) in
              if is_cont b1 \<and> is_cont b2 \<and> 0x800 \<le> cp \<and> \<not> (0xD800 \<le> cp \<and> cp \<le> 0xDFFF)
              then map_option (\<lambda>t. cp # t) (utf8_decode r)
              else None)
         | _ \<Rightarrow> None)
      else if 0xF0 \<le> b \<and> b < 0xF5 then
        (case bs of
           b1 # b2 # b3 # r \<Rightarrow>
             (let cp = (b - 0xF0) * 262144 + (b1 - 0x80) * 4096 + (b2 - 0x80) * 64 + (b3 - 0x80) in
              if is_cont b1 \<and> is_cont b2 \<and> is_cont b3 \<and> 0x10000 \<le> cp \<and> cp < 0x110000
              then map_option (\<lambda>t. cp # t) (utf8_decode r)
              else None)
         | _ \<Rightarrow> None)
      else None)"

datatype writer_error = UsageError | EmptyUserData | DecodeFailed | WriteFailed | WriterUncaught

datatype writer_outcome =
    Written string "nat list" nat
  | WriterExit writer_error

record writer_world =
  w_argv :: "string list"
  w_user_data_b64 :: "string option"
  w_stdin :: string
  w_write_ok :: bool

definition write_user_data :: "writer_world \<Rightarrow> writer_outcome" where
  \<comment> \<open>\<open>write_user_data.main\<close>. \<open>w_argv\<close> is \<open>sys.argv\<close>, \<open>w_user_data_b64\<close> the environment
      variable \<open>USER_DATA_B64\<close>, \<open>w_stdin\<close> the text of standard input, \<open>w_write_ok\<close>
      whether opening and writing the file goes without \<open>OSError\<close>. \<open>Written path bytes n\<close>:
      the file at \<open>path\<close> holds \<open>bytes\<close> and the size reported is \<open>n\<close>.\<close>
  "write_user_data W =
     (if length (w_argv W) < 2 then WriterExit UsageError
      else
        let output_file = w_argv W ! 1;
            from_env = (case w_user_data_b64 W of None \<Rightarrow> [] | Some v \<Rightarrow> v);
            user_data_b64 = (if from_env = [] then py_strip (w_stdin W) else from_env)
        in if user_data_b64 = [] then WriterExit EmptyUserData
           else
             (case b64decode user_data_b64 of
                Inl BinasciiError \<Rightarrow> WriterExit DecodeFailed
              | Inl AsciiValueError \<Rightarrow> WriterExit WriterUncaught
              | Inr raw \<Rightarrow>
                  (case utf8_decode raw of
                     None \<Rightarrow> WriterExit DecodeFailed
                   | Some user_data \<Rightarrow>
                       if \<not> w_write_ok W then WriterExit WriteFailed
                       else
                         (case utf8_encode user_data of
                            None \<Rightarrow> WriterExit WriterUncaught
                          | Some written \<Rightarrow> Written output_file written (length written)))))"

fun writer_status :: "writer_outcome \<Rightarrow> int" where
  \<comment> \<open>The exit status: 0 when \<open>main\<close> returns, 1 from \<open>sys.exit(1)\<close> and from an exception
      nothing catches.\<close>
  "writer_status (Written path bytes n) = 0"
| "writer_status (WriterExit e) = 1"

definition writer_input :: "writer_world \<Rightarrow> string" where
  \<comment> \<open>The base64 text the writer decodes: the environment variable, else standard input
      stripped of surrounding blanks.\<close>
  "writer_input W =
     (let from_env = (case w_user_data_b64 W of None \<Rightarrow> [] | Some v \<Rightarrow> v)
      in if from_env = [] then py_strip (w_stdin W) else from_env)"

definition ex_payload :: pytext where
  \<comment> \<open>The script \<open>#!\<close>, a newline and the character U+4E2D.\<close>
  "ex_payload = [35, 33, 10, 0x4E2D]"

definition ex_writer_argv :: "string list" where
  "ex_writer_argv = [''write_user_data.py'', ''/tmp/user_data.sh'']"

section \<open>Floating point\<close>

text \<open>
  A Python \<open>float\<close> is an IEEE 754 double: \<open>Finite neg q\<close> is the double of sign \<open>neg\<close> and
  magnitude \<open>q\<close>, a non-negative rational that a double holds exactly (zero has a sign).
  Arithmetic computes the exact rational result and rounds it to the nearest double, ties
  to the even one.
\<close>

datatype pyfloat = Finite bool rat | Infinity bool | NaN

function bit_length :: "int \<Rightarrow> int" where
  "bit_length n = (if n \<le> 0 then 0 else 1 + bit_length (n div 2))"
  by pat_completeness auto
termination
  by (relation "measure nat") auto

definition pow2 :: "int \<Rightarrow> rat" where
  "pow2 e = (if e \<ge> 0 then 2 ^ nat e else 1 / 2 ^ nat (- e))"

definition floor_log2 :: "rat \<Rightarrow> int" where
  \<comment> \<open>For \<open>q > 0\<close>, the exponent \<open>e\<close> with \<open>2^e \<le> q < 2^(e+1)\<close>.\<close>
  "floor_log2 q =
     (if q \<ge> 1 then bit_length \<lfloor>q\<rfloor> - 1 else - bit_length (\<lceil>1 / q\<rceil> - 1))"

definition round_half_even :: "rat \<Rightarrow> int" where
  "round_half_even q =
     (let f = \<lfloor>q\<rfloor>; r = q - of_int f in
      if r < 1 / 2 then f
      else if r > 1 / 2 then f + 1
      else if even f then f else f + 1)"

definition to_double :: "bool \<Rightarrow> rat \<Rightarrow> pyfloat" where
  \<comment> \<open>The double nearest to the magnitude \<open>q \<ge> 0\<close>, with the sign \<open>neg\<close>: 53 bits of
      precision, exponents from -1022 (below it the spacing stays \<open>2^-1074\<close>), infinity
      from \<open>2^1024\<close> on.\<close>
  "to_double neg q =
     (if q = 0 then Finite neg 0
      else
        let e = max (floor_log2 q) (- 1022);
            ulp = pow2 (e - 52);
            r = of_int (round_half_even (q / ulp)) * ulp
        in if r \<ge> pow2 1024 then Infinity neg else Finite neg r)"

fun float_mul :: "pyfloat \<Rightarrow> pyfloat \<Rightarrow> pyfloat" where
  "float_mul NaN y = NaN"
| "float_mul x NaN = NaN"
| "float_mul (Infinity s) (Infinity t) = Infinity (s \<noteq> t)"
| "float_mul (Infinity s) (Finite t q) = (if q = 0 then NaN else Infinity (s \<noteq> t))"
| "float_mul (Finite s q) (Infinity t) = (if q = 0 then NaN else Infinity (s \<noteq> t))"
| "float_mul (Finite s a) (Finite t b) = to_double (s \<noteq> t) (a * b)"

definition float_of_int :: "int \<Rightarrow> py_exception + pyfloat" where
  \<comment> \<open>The conversion of an \<open>int\<close> operand; \<open>OverflowError\<close> when it is too large.\<close>
  "float_of_int n =
     (case to_double (n < 0) (of_int \<bar>n\<bar>) of
        Infinity s \<Rightarrow> Inl OverflowError
      | x \<Rightarrow> Inr x)"

definition float_mul_int :: "pyfloat \<Rightarrow> int \<Rightarrow> py_exception + pyfloat" where
  \<comment> \<open>\<open>x * n\<close> for a \<open>float\<close> and an \<open>int\<close>.\<close>
  "float_mul_int x n =
     (case float_of_int n of Inl e \<Rightarrow> Inl e | Inr y \<Rightarrow> Inr (float_mul x y))"

definition float_1_2 :: pyfloat where
  \<comment> \<open>The literal \<open>1.2\<close>.\<close>
  "float_1_2 = to_double False (6 / 5)"

definition int_of_float :: "pyfloat \<Rightarrow> py_exception + int" where
  \<comment> \<open>\<open>int(x)\<close>: truncation towards zero.\<close>
  "int_of_float x =
     (case x of
        NaN \<Rightarrow> Inl ValueError
      | Infinity s \<Rightarrow> Inl OverflowError
      | Finite s q \<Rightarrow> Inr (if s then - \<lfloor>q\<rfloor> else \<lfloor>q\<rfloor>))"

definition digit_char :: "int \<Rightarrow> char" where
  "digit_char d = ''0123456789'' ! nat d"

function show_digits :: "int \<Rightarrow> string" where
  \<comment> \<open>The decimal digits of a non-negative integer.\<close>
  "show_digits n = (if n < 10 then [digit_char n] else show_digits (n div 10) @ [digit_char (n mod 10)])"
  by pat_completeness auto
termination
  by (relation "measure nat") auto

definition show_int :: "int \<Rightarrow> string" where
  \<comment> \<open>\<open>str(n)\<close> for an \<open>int\<close>.\<close>
  "show_int n = (if n < 0 then CHR ''-'' # show_digits (- n) else show_digits n)"

definition format_4f :: "pyfloat \<Rightarrow> string" where
  \<comment> \<open>The format \<open>.4f\<close>: the value rounded to four decimals, ties to even.\<close>
  "format_4f x =
     (case x of
        NaN \<Rightarrow> ''nan''
      | Infinity s \<Rightarrow> (if s then ''-inf'' else ''inf'')
      | Finite s q \<Rightarrow>
          (let n = round_half_even (q * 10000) in
           (if s then ''-'' else [])
           @ show_digits (n div 10000) @ ''.''
           @ [digit_char (n div 1000 mod 10), digit_char (n div 100 mod 10),
              digit_char (n div 10 mod 10), digit_char (n mod 10)]))"

text \<open>Parsing a \<open>float\<close> from text.\<close>

definition digit_group :: "string \<Rightarrow> bool" where
  \<comment> \<open>A possibly empty run of digits, single underscores allowed between two digits.\<close>
  "digit_group s = (s = [] \<or> int_body s)"

definition digits_of :: "string \<Rightarrow> string" where
  "digits_of s = filter (\<lambda>c. c \<noteq> CHR ''_'') s"

definition is_exp_char :: "char \<Rightarrow> bool" where
  "is_exp_char c = (c = CHR ''e'' \<or> c = CHR ''E'')"

definition parse_exponent :: "string \<Rightarrow> int option" where
  \<comment> \<open>What follows the mantissa: nothing, or \<open>e\<close>, an optional sign and digits.\<close>
  "parse_exponent s =
     (case s of
        [] \<Rightarrow> Some 0
      | c # r \<Rightarrow>
          if is_exp_char c then
            (let neg = (r \<noteq> [] \<and> hd r = CHR ''-'');
                 body = (if r \<noteq> [] \<and> (hd r = CHR ''-'' \<or> hd r = CHR ''+'') then tl r else r)
             in if int_body body
                then Some ((if neg then - 1 else 1) * dec_value (digits_of body))
                else None)
          else None)"

definition parse_decimal :: "string \<Rightarrow> rat option" where
  \<comment> \<open>An unsigned decimal literal: digits, an optional point and digits (one of the two
      groups of digits may be empty), an optional exponent. Its exact value.\<close>
  "parse_decimal s =
     (let ip = takeWhile (\<lambda>c. is_digit c \<or> c = CHR ''_'') s;
          r1 = dropWhile (\<lambda>c. is_digit c \<or> c = CHR ''_'') s;
          has_point = (r1 \<noteq> [] \<and> hd r1 = CHR ''.'');
          r2 = (if has_point then tl r1 else r1);
          fp = (if has_point then takeWhile (\<lambda>c. is_digit c \<or> c = CHR ''_'') r2 else []);
          r3 = (if has_point then dropWhile (\<lambda>c. is_digit c \<or> c = CHR ''_'') r2 else r2)
      in if digit_group ip \<and> digit_group fp \<and> (ip \<noteq> [] \<or> fp \<noteq> []) then
           (case parse_exponent r3 of
              None \<Rightarrow> None
            | Some e \<Rightarrow>
                Some (of_int (dec_value (digits_of ip @ digits_of fp))
                      * (if e - int (length (digits_of fp)) \<ge> 0
                         then 10 ^ nat (e - int (length (digits_of fp)))
                         else 1 / 10 ^ nat (int (length (digits_of fp)) - e))))
         else None)"

definition py_float :: "string \<Rightarrow> pyfloat option" where
  \<comment> \<open>\<open>float(s)\<close>, \<open>None\<close> where it raises \<open>ValueError\<close>: blanks stripped, an optional sign,
      then \<open>inf\<close>, \<open>infinity\<close> or \<open>nan\<close> in any case, or a decimal literal, rounded to the
      nearest double.\<close>
  "py_float s =
     (let t = num_strip s;
          neg = (t \<noteq> [] \<and> hd t = CHR ''-'');
          body = (if t \<noteq> [] \<and> (hd t = CHR ''-'' \<or> hd t = CHR ''+'') then tl t else t);
          low = py_lower body
      in if low = ''inf'' \<or> low = ''infinity'' then Some (Infinity neg)
         else if low = ''nan'' then Some NaN
         else (case parse_decimal body of
                 None \<Rightarrow> None
               | Some q \<Rightarrow> Some (to_double neg q)))"

section \<open>Selector: instance type and candidates\<close>

definition match_xlarge :: "string \<Rightarrow> string option" where
  \<comment> \<open>The pattern \<open>\.(\d+)xlarge$\<close> matched at the start of \<open>s\<close>: its group. The digits are
      taken greedily; what follows them must be \<open>xlarge\<close>, so no shorter run can match.\<close>
  "match_xlarge s =
     (case s of
        [] \<Rightarrow> None
      | c # r \<Rightarrow>
          if c = CHR ''.'' then
            (let g = takeWhile is_digit r;
                 rest = dropWhile is_digit r
             in if g \<noteq> [] \<and> prefix ''xlarge'' rest \<and> at_dollar (drop 6 rest) then Some g
                else None)
          else None)"

fun search_xlarge :: "string \<Rightarrow> string option" where
  \<comment> \<open>\<open>re.search\<close> with that pattern: the leftmost match.\<close>
  "search_xlarge [] = None"
| "search_xlarge (c # cs) =
     (case match_xlarge (c # cs) of
        Some g \<Rightarrow> Some g
      | None \<Rightarrow> search_xlarge cs)"

definition parse_cpu_from_instance_type :: "nat \<Rightarrow> string \<Rightarrow> py_exception + int option" where
  \<comment> \<open>\<open>Inl\<close> is the \<open>ValueError\<close> of \<open>int\<close> on more digits than the interpreter's limit
      \<open>L\<close>.\<close>
  "parse_cpu_from_instance_type L instance_type =
     (case search_xlarge instance_type of
        Some g \<Rightarrow>
          (case py_int L g of
             None \<Rightarrow> Inl ValueError
           | Some n \<Rightarrow> Inr (Some (n * 4)))
      | None \<Rightarrow>
          if py_endswith instance_type ''.xlarge'' then Inr (Some 4)
          else if py_endswith instance_type ''.large'' then Inr (Some 2)
          else if py_endswith instance_type ''.medium'' then Inr (Some 2)
          else Inr None)"

text \<open>
  An offer of the advisor is a parsed JSON value. \<open>str\<close> of a string is the string, of a
  number the text kept for it, of a truth value \<open>True\<close> or \<open>False\<close>; for an array or an
  object it is taken as given (\<open>repr\<close>).
\<close>

definition py_str :: "(json \<Rightarrow> string) \<Rightarrow> json \<Rightarrow> string" where
  "py_str repr v =
     (case v of
        JString s \<Rightarrow> s
      | JNumber t \<Rightarrow> t
      | JBool b \<Rightarrow> (if b then ''True'' else ''False'')
      | JNull \<Rightarrow> ''None''
      | _ \<Rightarrow> repr v)"

fun get_field_value :: "(json \<Rightarrow> string) \<Rightarrow> json \<Rightarrow> string list \<Rightarrow> py_exception + string option" where
  \<comment> \<open>\<open>get_field_value\<close>. On an offer that is no object, \<open>key in obj\<close> is the membership
      in an array and the search in a string, and raises \<open>TypeError\<close> on anything else;
      where it holds, \<open>obj[key]\<close> raises \<open>TypeError\<close>.\<close>
  "get_field_value repr obj [] = Inr None"
| "get_field_value repr obj (key # keys) =
     (case obj of
        JObject items \<Rightarrow>
          (case map_of items key of
             Some v \<Rightarrow> Inr (if v = JNull then None else Some (py_str repr v))
           | None \<Rightarrow> get_field_value repr obj keys)
      | JArray xs \<Rightarrow>
          if JString key \<in> set xs then Inl TypeError else get_field_value repr obj keys
      | JString s \<Rightarrow>
          if py_contains key s then Inl TypeError else get_field_value repr obj keys
      | _ \<Rightarrow> Inl TypeError)"

datatype pyval = PNone | PStr string | PInt int

datatype skip_reason = MissingField | UnknownCores | BelowMinimum | BadPrice

type_synonym offer = "string \<times> string \<times> pyfloat \<times> int"

datatype step = Candidate offer | Skipped skip_reason | StepRaised py_exception

definition cores_field :: "nat \<Rightarrow> string option \<Rightarrow> pyval" where
  \<comment> \<open>Lines 130 to 135: a field that is not empty becomes an integer, or \<open>None\<close> when
      \<open>int\<close> raises; an empty one stays the empty string.\<close>
  "cores_field L cpu_cores =
     (case cpu_cores of
        None \<Rightarrow> PNone
      | Some s \<Rightarrow>
          if s \<noteq> [] then (case py_int L s of Some n \<Rightarrow> PInt n | None \<Rightarrow> PNone)
          else PStr s)"

definition memory_field :: "string option \<Rightarrow> py_exception + pyval" where
  \<comment> \<open>Lines 146 to 151: \<open>int(float(memory_size))\<close>, \<open>None\<close> for a \<open>ValueError\<close>; the
      \<open>OverflowError\<close> of an infinity is not caught.\<close>
  "memory_field memory_size =
     (case memory_size of
        None \<Rightarrow> Inr PNone
      | Some s \<Rightarrow>
          if s \<noteq> [] then
            (case py_float s of
               None \<Rightarrow> Inr PNone
             | Some x \<Rightarrow>
                 (case int_of_float x of
                    Inr m \<Rightarrow> Inr (PInt m)
                  | Inl e \<Rightarrow> if e = ValueError then Inr PNone else Inl e))
          else Inr (PStr s))"

definition py_less :: "pyval \<Rightarrow> int \<Rightarrow> py_exception + bool" where
  \<comment> \<open>\<open>v < m\<close> for an integer \<open>m\<close>: only integers compare.\<close>
  "py_less v m = (case v of PInt n \<Rightarrow> Inr (n < m) | _ \<Rightarrow> Inl TypeError)"

definition py_twice :: "pyval \<Rightarrow> pyval" where
  \<comment> \<open>\<open>v * 2\<close>.\<close>
  "py_twice v = (case v of PInt n \<Rightarrow> PInt (n * 2) | PStr s \<Rightarrow> PStr (s @ s) | PNone \<Rightarrow> PNone)"

definition text_ok :: "nat \<Rightarrow> pyval \<Rightarrow> bool" where
  \<comment> \<open>The value can be put in a message.\<close>
  "text_ok L v = (case v of PInt n \<Rightarrow> str_ok L n | _ \<Rightarrow> True)"

definition check_minimum ::
  "nat \<Rightarrow> string \<Rightarrow> string \<Rightarrow> string \<Rightarrow> pyval \<Rightarrow> pyval \<Rightarrow> int \<Rightarrow> int \<Rightarrow> step" where
  \<comment> \<open>Lines 162 to 177, for an offer whose cores and memory are known.\<close>
  "check_minimum L instance_type zone_id price_per_core cpu_cores memory_size min_cpu' min_mem' =
     (case py_less cpu_cores min_cpu' of
        Inl e \<Rightarrow> StepRaised e
      | Inr low_cpu \<Rightarrow>
          (case (if low_cpu then Inr True else py_less memory_size min_mem') of
             Inl e \<Rightarrow> StepRaised e
           | Inr low \<Rightarrow>
               if low then
                 (if text_ok L cpu_cores \<and> text_ok L memory_size
                     \<and> str_ok L min_cpu' \<and> str_ok L min_mem'
                  then Skipped BelowMinimum else StepRaised ValueError)
               else
                 (case py_float price_per_core of
                    None \<Rightarrow> Skipped BadPrice
                  | Some price \<Rightarrow>
                      (case cpu_cores of
                         PInt n \<Rightarrow> Candidate (instance_type, zone_id, price, n)
                       | _ \<Rightarrow> StepRaised TypeError))))"

definition instance_step ::
  "nat \<Rightarrow> (json \<Rightarrow> string) \<Rightarrow> int \<Rightarrow> int \<Rightarrow> string \<Rightarrow> json \<Rightarrow> step" where
  \<comment> \<open>The body of the loop of \<open>filter_instances\<close>, lines 113 to 179: the candidate it
      appends, the reason it skips the offer, or the exception that ends the function.
      The offer is skipped for unknown cores and for the minimum with a message on the
      error stream, and without one otherwise.\<close>
  "instance_step L repr min_cpu' min_mem' a instance =
     (case get_field_value repr instance [''instanceTypeId'', ''instance_type'', ''InstanceType''] of
        Inl e \<Rightarrow> StepRaised e
      | Inr instance_type \<Rightarrow>
     (case get_field_value repr instance [''zoneId'', ''zone_id'', ''ZoneId''] of
        Inl e \<Rightarrow> StepRaised e
      | Inr zone_id \<Rightarrow>
     (case get_field_value repr instance
             [''pricePerCore'', ''price_per_core'', ''PricePerCore'', ''price'', ''Price''] of
        Inl e \<Rightarrow> StepRaised e
      | Inr price_per_core \<Rightarrow>
     (case get_field_value repr instance
             [''cpuCoreCount'', ''cpu_cores'', ''CpuCores'', ''cores'', ''Cores''] of
        Inl e \<Rightarrow> StepRaised e
      | Inr cpu_cores \<Rightarrow>
     (case get_field_value repr instance
             [''memorySize'', ''memory_size'', ''MemorySize'', ''memory'', ''Memory''] of
        Inl e \<Rightarrow> StepRaised e
      | Inr memory_size \<Rightarrow>
          if \<not> truthy_opt instance_type \<or> \<not> truthy_opt zone_id \<or> \<not> truthy_opt price_per_core
          then Skipped MissingField
          else
            (case (if cores_field L cpu_cores = PNone
                   then (case parse_cpu_from_instance_type L (the instance_type) of
                           Inl e \<Rightarrow> Inl e
                         | Inr None \<Rightarrow> Inr PNone
                         | Inr (Some n) \<Rightarrow> Inr (PInt n))
                   else Inr (cores_field L cpu_cores)) of
               Inl e \<Rightarrow> StepRaised e
             | Inr cores \<Rightarrow>
                 if cores = PNone then Skipped UnknownCores
                 else
                   (case memory_field memory_size of
                      Inl e \<Rightarrow> StepRaised e
                    | Inr memory \<Rightarrow>
                        check_minimum L (the instance_type) (the zone_id) (the price_per_core)
                          cores
                          (if memory = PNone
                           then (if a = ''amd64'' then cores
                                 else if a = ''arm64'' then py_twice cores
                                 else cores)
                           else memory)
                          min_cpu' min_mem')))))))"

fun filter_loop ::
  "nat \<Rightarrow> (json \<Rightarrow> string) \<Rightarrow> int \<Rightarrow> int \<Rightarrow> string \<Rightarrow> nat \<Rightarrow> offer list \<Rightarrow> json list
     \<Rightarrow> py_exception + offer list" where
  "filter_loop L repr min_cpu' min_mem' a max_candidates candidates [] = Inr candidates"
| "filter_loop L repr min_cpu' min_mem' a max_candidates candidates (instance # rest) =
     (case instance_step L repr min_cpu' min_mem' a instance of
        StepRaised e \<Rightarrow> Inl e
      | Skipped why \<Rightarrow> filter_loop L repr min_cpu' min_mem' a max_candidates candidates rest
      | Candidate c \<Rightarrow>
          if length (candidates @ [c]) \<ge> max_candidates then Inr (candidates @ [c])
          else filter_loop L repr min_cpu' min_mem' a max_candidates (candidates @ [c]) rest)"

definition filter_instances ::
  "nat \<Rightarrow> (json \<Rightarrow> string) \<Rightarrow> json list \<Rightarrow> int \<Rightarrow> int \<Rightarrow> string \<Rightarrow> nat
     \<Rightarrow> py_exception + offer list" where
  "filter_instances L repr instances min_cpu' min_mem' a max_candidates =
     filter_loop L repr min_cpu' min_mem' a max_candidates [] instances"

definition candidate_line :: "environ \<Rightarrow> nat \<Rightarrow> offer \<Rightarrow> py_exception + string option" where
  \<comment> \<open>One turn of the loop of lines 377 to 396: the line written for a candidate, \<open>None\<close>
      when its zone has no subnet. The product with the cores raises \<open>OverflowError\<close> for an
      integer beyond the floats, and the text of the cores \<open>ValueError\<close> beyond the limit
      on the digits.\<close>
  "candidate_line env L cand =
     (case cand of (cand_instance_type, cand_zone_id, cand_price_per_core, cand_cpu_cores) \<Rightarrow>
        if \<not> truthy_opt (get_vswitch_id env cand_zone_id) then Inr None
        else
          (case float_mul_int cand_price_per_core cand_cpu_cores of
             Inl e \<Rightarrow> Inl e
           | Inr cand_total_price \<Rightarrow>
               if str_ok L cand_cpu_cores then
                 Inr (Some (cand_instance_type @ ''|'' @ cand_zone_id @ ''|''
                            @ the (get_vswitch_id env cand_zone_id) @ ''|''
                            @ format_4f (float_mul cand_total_price float_1_2) @ ''|''
                            @ show_int cand_cpu_cores @ [CHR 0x0A]))
               else Inl ValueError))"

fun write_candidates ::
  "environ \<Rightarrow> nat \<Rightarrow> string list \<Rightarrow> offer list \<Rightarrow> string list \<times> py_exception option" where
  \<comment> \<open>The loop that writes the candidate file: the lines written, and the exception that
      ended it, if any.\<close>
  "write_candidates env L written [] = (written, None)"
| "write_candidates env L written (cand # rest) =
     (case candidate_line env L cand of
        Inl e \<Rightarrow> (written, Some e)
      | Inr None \<Rightarrow> write_candidates env L written rest
      | Inr (Some line) \<Rightarrow> write_candidates env L (written @ [line]) rest)"

record selection =
  sel_instance_type :: string
  sel_zone_id :: string
  sel_vswitch_id :: string
  sel_spot_price_limit :: string
  sel_cpu_cores :: int

definition has_subnet :: "environ \<Rightarrow> offer \<Rightarrow> bool" where
  "has_subnet env cand = (case cand of (t, z, p, n) \<Rightarrow> truthy_opt (get_vswitch_id env z))"

definition select_write ::
  "environ \<Rightarrow> nat \<Rightarrow> (json \<Rightarrow> string) \<Rightarrow> select_cfg \<Rightarrow> json list
     \<Rightarrow> (select_error + selection) \<times> string list" where
  \<comment> \<open>\<open>main\<close> from line 335 on, given the array of the query phase: how the Selector ends
      (the values it prints, or its error), and the lines it wrote to the candidate file.
      Creating the file and writing to it are taken to succeed.\<close>
  "select_write env L repr C json_result =
     (case filter_instances L repr json_result (min_cpu C) (min_mem C) (arch C) 5 of
        Inl e \<Rightarrow> (Inl (Uncaught OtherError), [])
      | Inr candidates \<Rightarrow>
          if candidates = [] then
            (if str_ok L (min_cpu C) \<and> str_ok L (min_mem C)
             then (Inl (NoInstancesMatching (min_cpu C) (min_mem C)), [])
             else (Inl (Uncaught OtherError), []))
          else
            (case find (has_subnet env) candidates of
               None \<Rightarrow> (Inl NoVSwitchConfigured, [])
             | Some (instance_type, zone_id, price_per_core, cpu_cores) \<Rightarrow>
                 if instance_type = [] then (Inl NoVSwitchConfigured, [])
                 else
                 (case float_mul_int price_per_core cpu_cores of
                    Inl e \<Rightarrow> (Inl (Uncaught OtherError), [])
                  | Inr total_price \<Rightarrow>
                      (case write_candidates env L [] candidates of
                         (written, Some e) \<Rightarrow> (Inl (Uncaught OtherError), written)
                       | (written, None) \<Rightarrow>
                           (Inr \<lparr> sel_instance_type = instance_type, sel_zone_id = zone_id,
                                  sel_vswitch_id = the (get_vswitch_id env zone_id),
                                  sel_spot_price_limit = format_4f (float_mul total_price float_1_2),
                                  sel_cpu_cores = cpu_cores \<rparr>,
                            written)))))"


(*PROPERTIES*)

section \<open>Properties of the Selector's query phase\<close>











lemma ex_deep_neq: "length s < 2000 \<Longrightarrow> replicate 2000 c \<noteq> s" "length s < 2000 \<Longrightarrow> s \<noteq> replicate 2000 c"
  by auto



section \<open>Properties of the zone to subnet resolution\<close>

lemma nl_not_lower: "\<not> is_lower_az (CHR 0x0A)"
  by (simp add: is_lower_az_def)

lemma search_zone_suffix_Some:
  "search_zone_suffix z = Some l \<longleftrightarrow>
     is_lower_az l \<and> (\<exists>p. z = p @ [CHR ''-'', l] \<or> z = p @ [CHR ''-'', l, CHR 0x0A])"
proof (induction z rule: search_zone_suffix.induct)
  case 1
  then show ?case by simp
next
  case (2 c cs)
  show ?case
  proof (cases cs)
    case Nil
    then show ?thesis by (auto simp: Cons_eq_append_conv)
  next
    case (Cons l' rest)
    show ?thesis
    proof (cases "c = CHR ''-'' \<and> is_lower_az l' \<and> at_dollar rest")
      case True
      then have "rest = [] \<or> rest = [CHR 0x0A]" by (simp add: at_dollar_def)
      then show ?thesis
        using True Cons nl_not_lower
        by (auto simp: Cons_eq_append_conv append_eq_Cons_conv)
    next
      case False
      have "search_zone_suffix (c # cs) = search_zone_suffix cs"
        using False Cons by auto
      moreover have "(\<exists>p. c # cs = p @ [CHR ''-'', l] \<or> c # cs = p @ [CHR ''-'', l, CHR 0x0A])
        \<longleftrightarrow> (\<exists>p. cs = p @ [CHR ''-'', l] \<or> cs = p @ [CHR ''-'', l, CHR 0x0A]) \<or>
            (c # cs = [CHR ''-'', l] \<or> c # cs = [CHR ''-'', l, CHR 0x0A])"
        by (auto simp: Cons_eq_append_conv)
      ultimately show ?thesis
        using False Cons 2 by (auto simp: at_dollar_def)
    qed
  qed
qed

lemma search_zone_suffix_None:
  "search_zone_suffix z = None \<longleftrightarrow>
     \<not> (\<exists>p l. is_lower_az l \<and> (z = p @ [CHR ''-'', l] \<or> z = p @ [CHR ''-'', l, CHR 0x0A]))"
proof -
  have "search_zone_suffix z = None \<longleftrightarrow> \<not> (\<exists>l. search_zone_suffix z = Some l)"
    by auto
  then show ?thesis
    unfolding search_zone_suffix_Some by blast
qed

text \<open>
  Claim C7, as stated, at a zone identifier that ends in a newline: the identifier does not
  end in a hyphen and a lowercase letter, and yet it resolves to the subnet of the letter
  before the newline, because \<open>$\<close> also matches just before a final newline.
\<close>

theorem zone_pattern_counterexample:
  "spec_zone_letter (''cn-hangzhou-k'' @ [CHR 0x0A]) = None \<and>
   get_vswitch_id ex_environ (''cn-hangzhou-k'' @ [CHR 0x0A]) = Some ''vsw-k''"
  by code_simp

text \<open>
  Claim C7, amended. For every zone identifier that ends in a hyphen and one lowercase
  letter, or in a hyphen, one lowercase letter and one final newline, the resolved subnet
  is the value of the environment variable named \<open>ALIYUN_VSWITCH_ID_\<close> followed by that
  letter in upper case (32 code points below it); every other zone identifier resolves to
  no subnet; and the Provisioner's function is the Selector's.
\<close>

theorem zone_subnet_resolution:
  "(\<forall>p l. is_lower_az l \<and> (z = p @ [CHR ''-'', l] \<or> z = p @ [CHR ''-'', l, CHR 0x0A]) \<longrightarrow>
      get_vswitch_id env z = env (''ALIYUN_VSWITCH_ID_'' @ [upper_az l]) \<and>
      (of_char (upper_az l) :: nat) = of_char l - 32 \<and>
      CHR ''A'' \<le> upper_az l \<and> upper_az l \<le> CHR ''Z'') \<and>
   ((\<nexists>p l. is_lower_az l \<and> (z = p @ [CHR ''-'', l] \<or> z = p @ [CHR ''-'', l, CHR 0x0A])) \<longrightarrow>
      get_vswitch_id env z = None) \<and>
   create_get_vswitch_id env z = get_vswitch_id env z"
proof (intro conjI allI impI)
  fix p l
  assume h: "is_lower_az l \<and> (z = p @ [CHR ''-'', l] \<or> z = p @ [CHR ''-'', l, CHR 0x0A])"
  then have "search_zone_suffix z = Some l"
    unfolding search_zone_suffix_Some by blast
  then show "get_vswitch_id env z = env (''ALIYUN_VSWITCH_ID_'' @ [upper_az l])"
    by (simp add: get_vswitch_id_def)
  have b: "97 \<le> (of_char l :: nat) \<and> (of_char l :: nat) \<le> 122"
    using h by (simp add: is_lower_az_def less_eq_char_def)
  then have "(of_char l - 32 :: nat) mod 256 = of_char l - 32"
    by (intro mod_less) arith
  then show u: "(of_char (upper_az l) :: nat) = of_char l - 32"
    using h by (simp add: upper_az_def)
  show "CHR ''A'' \<le> upper_az l" "upper_az l \<le> CHR ''Z''"
    using u b by (simp_all add: less_eq_char_def) arith+
next
  assume "\<nexists>p l. is_lower_az l \<and> (z = p @ [CHR ''-'', l] \<or> z = p @ [CHR ''-'', l, CHR 0x0A])"
  then have "search_zone_suffix z = None"
    unfolding search_zone_suffix_None by blast
  then show "get_vswitch_id env z = None"
    by (simp add: get_vswitch_id_def)
next
  show "create_get_vswitch_id env z = get_vswitch_id env z"
    by (simp add: create_get_vswitch_id_def get_vswitch_id_def)
qed

theorem zone_subnet_resolution_witness:
  "is_lower_az (CHR ''k'') \<and>
   get_vswitch_id ex_environ ''cn-hangzhou-k'' = Some ''vsw-k'' \<and>
   upper_az (CHR ''k'') = CHR ''K'' \<and>
   (\<nexists>p l. is_lower_az l \<and>
      (''cn-hangzhou'' = p @ [CHR ''-'', l] \<or> ''cn-hangzhou'' = p @ [CHR ''-'', l, CHR 0x0A])) \<and>
   get_vswitch_id ex_environ ''cn-hangzhou'' = None \<and>
   create_get_vswitch_id ex_environ ''cn-hangzhou-k'' = Some ''vsw-k''"
proof -
  have k: "is_lower_az (CHR ''k'')" by (simp add: is_lower_az_def)
  have u: "upper_az (CHR ''k'') = CHR ''K''" by code_simp
  have z: "''cn-hangzhou-k'' = ''cn-hangzhou'' @ [CHR ''-'', CHR ''k'']" by simp
  note th1 = zone_subnet_resolution [of "''cn-hangzhou-k''" ex_environ]
  have g: "get_vswitch_id ex_environ ''cn-hangzhou-k'' = Some ''vsw-k''"
    using th1 [THEN conjunct1, THEN spec, THEN spec, THEN mp, OF conjI [OF k disjI1 [OF z]]]
    by (simp add: u ex_environ_def)
  have c: "create_get_vswitch_id ex_environ ''cn-hangzhou-k'' = Some ''vsw-k''"
    using th1 g by simp
  have n: "\<nexists>p l. is_lower_az l \<and>
      (''cn-hangzhou'' = p @ [CHR ''-'', l] \<or> ''cn-hangzhou'' = p @ [CHR ''-'', l, CHR 0x0A])"
  proof -
    have "search_zone_suffix ''cn-hangzhou'' = None"
      by (simp add: is_lower_az_def at_dollar_def)
    then show ?thesis unfolding search_zone_suffix_None .
  qed
  have e: "get_vswitch_id ex_environ ''cn-hangzhou'' = None"
    using zone_subnet_resolution [of "''cn-hangzhou''" ex_environ] n by blast
  show ?thesis using k g u n e c by blast
qed

section \<open>Properties of the candidate file parser\<close>

lemma py_split_nonempty: "py_split sep s \<noteq> []"
  by (induction s) (auto split: list.splits)

lemma parse_candidate_lines_ok:
  "\<forall>parts \<in> set (record_fields lines). fifth_ok L parts \<Longrightarrow>
   parse_candidate_lines L acc lines = Inr (acc @ map (record_of L) (record_fields lines))"
proof (induction lines arbitrary: acc)
  case Nil
  then show ?case by (simp add: record_fields_def)
next
  case (Cons line rest)
  have r: "\<forall>parts \<in> set (record_fields rest). fifth_ok L parts"
    using Cons.prems by (auto simp: record_fields_def)
  show ?case
  proof (cases "py_strip line = []")
    case True
    then show ?thesis using Cons.IH [OF r] by (simp add: record_fields_def)
  next
    case False
    let ?parts = "py_split (CHR ''|'') (py_strip line)"
    show ?thesis
    proof (cases "length ?parts \<ge> 4")
      case short: False
      then show ?thesis
        using False Cons.IH [OF r] by (simp add: record_fields_def Let_def)
    next
      case True
      have f: "record_fields (line # rest) = ?parts # record_fields rest"
        using True False by (simp add: record_fields_def)
      have ok: "fifth_ok L ?parts" using Cons.prems f by simp
      show ?thesis
      proof (cases "length ?parts > 4 \<and> ?parts ! 4 \<noteq> []")
        case five: True
        then obtain n where n: "py_int L (?parts ! 4) = Some n"
          using ok by (auto simp: fifth_ok_def)
        show ?thesis
          using True False five n Cons.IH [OF r] f
          by (simp add: Let_def record_of_def)
      next
        case nofive: False
        have "parse_candidate_lines L acc (line # rest) =
            parse_candidate_lines L
              (acc @ [(?parts ! 0, ?parts ! 1, ?parts ! 2, ?parts ! 3, None)]) rest"
          using True False nofive by (auto simp: Let_def)
        moreover have "record_of L ?parts = (?parts ! 0, ?parts ! 1, ?parts ! 2, ?parts ! 3, None)"
          using nofive by (auto simp: record_of_def)
        ultimately show ?thesis
          using Cons.IH [OF r] f by simp
      qed
    qed
  qed
qed

lemma parse_candidate_lines_bad:
  "\<exists>parts \<in> set (record_fields lines). \<not> fifth_ok L parts \<Longrightarrow>
   parse_candidate_lines L acc lines = Inl ValueError"
proof (induction lines arbitrary: acc)
  case Nil
  then show ?case by (simp add: record_fields_def)
next
  case (Cons line rest)
  show ?case
  proof (cases "py_strip line = []")
    case True
    then show ?thesis using Cons by (simp add: record_fields_def)
  next
    case False
    let ?parts = "py_split (CHR ''|'') (py_strip line)"
    show ?thesis
    proof (cases "length ?parts \<ge> 4")
      case short: False
      then show ?thesis
        using False Cons by (simp add: record_fields_def Let_def)
    next
      case True
      have f: "record_fields (line # rest) = ?parts # record_fields rest"
        using True False by (simp add: record_fields_def)
      show ?thesis
      proof (cases "fifth_ok L ?parts")
        case bad: False
        then show ?thesis
          using True False by (auto simp: Let_def fifth_ok_def)
      next
        case ok: True
        then have r: "\<exists>parts \<in> set (record_fields rest). \<not> fifth_ok L parts"
          using Cons.prems f by auto
        show ?thesis
        proof (cases "length ?parts > 4 \<and> ?parts ! 4 \<noteq> []")
          case five: True
          then obtain n where n: "py_int L (?parts ! 4) = Some n"
            using ok by (auto simp: fifth_ok_def)
          show ?thesis
            using True False five n Cons.IH [OF r] by (simp add: Let_def)
        next
          case nofive: False
          have "parse_candidate_lines L acc (line # rest) =
              parse_candidate_lines L
                (acc @ [(?parts ! 0, ?parts ! 1, ?parts ! 2, ?parts ! 3, None)]) rest"
            using True False nofive by (auto simp: Let_def)
          then show ?thesis
            using Cons.IH [OF r] by simp
        qed
      qed
    qed
  qed
qed

lemma ex_py_int: "py_int 4300 ''8'' = Some 8"
  by (simp add: py_int_def num_strip_def num_space_def too_many_digits_def dec_value_def
      digit_val_def is_digit_def)

lemma ex_py_int_eight: "py_int L ''eight'' = None"
  by (simp add: py_int_def num_strip_def num_space_def is_digit_def)

lemma ex_bad_record_fields:
  "record_fields (file_lines ''ecs.c7.2xlarge|cn-hangzhou-k|vsw-k|0.4800|eight'')
     = [[''ecs.c7.2xlarge'', ''cn-hangzhou-k'', ''vsw-k'', ''0.4800'', ''eight'']]"
  by code_simp

text \<open>
  Claim C10, as stated, at a file whose only line has a fifth field that is not an integer:
  the line is not blank and has five fields, and the parser returns no list at all, because
  \<open>int\<close> raises \<open>ValueError\<close> and nothing catches it.
\<close>

theorem parse_candidates_counterexample:
  "record_fields (file_lines ''ecs.c7.2xlarge|cn-hangzhou-k|vsw-k|0.4800|eight'')
     = [[''ecs.c7.2xlarge'', ''cn-hangzhou-k'', ''vsw-k'', ''0.4800'', ''eight'']] \<and>
   parse_candidates_file ex_bad_filesystem 4300 ''/tmp/candidates.txt'' = Inl ValueError"
proof -
  have "\<exists>parts \<in> set (record_fields
        (file_lines ''ecs.c7.2xlarge|cn-hangzhou-k|vsw-k|0.4800|eight'')). \<not> fifth_ok 4300 parts"
    by (simp add: ex_bad_record_fields fifth_ok_def ex_py_int_eight)
  then show ?thesis
    using parse_candidate_lines_bad [of _ 4300 "[]"]
    by (simp add: ex_bad_record_fields parse_candidates_file_def ex_bad_filesystem_def)
qed

text \<open>
  Claim C10, amended. A path that is not a regular file yields the empty list. For a file
  that is read to its end, take the lines stripped of surrounding blanks, leave out the
  empty ones, split the others at \<open>|\<close> and keep those with at least four fields. When in
  each of them a fifth field that is present and non-empty is text that \<open>int\<close> accepts
  (blanks, an optional sign, decimal digits with single underscores between them, no more
  digits than the interpreter's limit), the parser returns exactly their records, in file
  order: fields one to four as they stand, and the fifth as an integer when it is present
  and non-empty, \<open>None\<close> otherwise. When one of them has a non-empty fifth field that \<open>int\<close>
  does not accept, the parser raises \<open>ValueError\<close>. For a file whose reading fails, the
  parser raises an exception.
\<close>

theorem parse_candidates_file_records:
  "(fs path = None \<longrightarrow> parse_candidates_file fs L path = Inr []) \<and>
   (\<forall>content. fs path = Some (FileText content) \<longrightarrow>
      ((\<forall>parts \<in> set (record_fields (file_lines content)). fifth_ok L parts) \<longrightarrow>
         parse_candidates_file fs L path
           = Inr (map (record_of L) (record_fields (file_lines content)))) \<and>
      ((\<exists>parts \<in> set (record_fields (file_lines content)). \<not> fifth_ok L parts) \<longrightarrow>
         parse_candidates_file fs L path = Inl ValueError)) \<and>
   (\<forall>content. fs path = Some (FileFails content) \<longrightarrow>
      (\<exists>e. parse_candidates_file fs L path = Inl e))"
proof (intro conjI allI impI)
  assume "fs path = None"
  then show "parse_candidates_file fs L path = Inr []"
    by (simp add: parse_candidates_file_def)
next
  fix content
  assume c: "fs path = Some (FileText content)"
    and ok: "\<forall>parts \<in> set (record_fields (file_lines content)). fifth_ok L parts"
  show "parse_candidates_file fs L path
      = Inr (map (record_of L) (record_fields (file_lines content)))"
    using c parse_candidate_lines_ok [OF ok, of "[]"]
    by (simp add: parse_candidates_file_def)
next
  fix content
  assume c: "fs path = Some (FileText content)"
    and bad: "\<exists>parts \<in> set (record_fields (file_lines content)). \<not> fifth_ok L parts"
  show "parse_candidates_file fs L path = Inl ValueError"
    using c parse_candidate_lines_bad [OF bad, of "[]"]
    by (simp add: parse_candidates_file_def)
next
  fix content
  assume c: "fs path = Some (FileFails content)"
  show "\<exists>e. parse_candidates_file fs L path = Inl e"
    using c by (simp add: parse_candidates_file_def split: sum.splits)
qed

lemma ex_record_fields:
  "record_fields (file_lines ex_candidates_text) =
     [[''ecs.c7.2xlarge'', ''cn-hangzhou-k'', ''vsw-k'', ''0.4800'', ''8''],
      [''ecs.g7.large'', ''cn-hangzhou-j'', ''vsw-j'', ''0.1200'', ''''],
      [''ecs.c6.xlarge'', ''cn-hangzhou-i'', ''vsw-i'', ''0.2400'']]"
  by code_simp

theorem parse_candidates_file_records_witness:
  "ex_filesystem ''/tmp/none.txt'' = None \<and>
   parse_candidates_file ex_filesystem 4300 ''/tmp/none.txt'' = Inr [] \<and>
   ex_filesystem ''/tmp/candidates.txt'' = Some (FileText ex_candidates_text) \<and>
   parse_candidates_file ex_filesystem 4300 ''/tmp/candidates.txt'' =
     Inr [(''ecs.c7.2xlarge'', ''cn-hangzhou-k'', ''vsw-k'', ''0.4800'', Some 8),
          (''ecs.g7.large'', ''cn-hangzhou-j'', ''vsw-j'', ''0.1200'', None),
          (''ecs.c6.xlarge'', ''cn-hangzhou-i'', ''vsw-i'', ''0.2400'', None)] \<and>
   ex_bad_filesystem ''/tmp/candidates.txt''
     = Some (FileText ''ecs.c7.2xlarge|cn-hangzhou-k|vsw-k|0.4800|eight'') \<and>
   parse_candidates_file ex_bad_filesystem 4300 ''/tmp/candidates.txt'' = Inl ValueError \<and>
   ex_bad_filesystem ''/tmp/partial.txt'' = Some (FileFails []) \<and>
   (\<exists>e. parse_candidates_file ex_bad_filesystem 4300 ''/tmp/partial.txt'' = Inl e)"
proof -
  have n: "ex_filesystem ''/tmp/none.txt'' = None"
    by (simp add: ex_filesystem_def)
  have s: "ex_filesystem ''/tmp/candidates.txt'' = Some (FileText ex_candidates_text)"
    by (simp add: ex_filesystem_def)
  have ok: "\<forall>parts \<in> set (record_fields (file_lines ex_candidates_text)). fifth_ok 4300 parts"
    by (simp add: ex_record_fields fifth_ok_def ex_py_int)
  have b: "ex_bad_filesystem ''/tmp/candidates.txt''
     = Some (FileText ''ecs.c7.2xlarge|cn-hangzhou-k|vsw-k|0.4800|eight'')"
    by (simp add: ex_bad_filesystem_def)
  have p: "ex_bad_filesystem ''/tmp/partial.txt'' = Some (FileFails [])"
    by (simp add: ex_bad_filesystem_def)
  have bad: "\<exists>parts \<in> set (record_fields
        (file_lines ''ecs.c7.2xlarge|cn-hangzhou-k|vsw-k|0.4800|eight'')). \<not> fifth_ok 4300 parts"
    by (simp add: ex_bad_record_fields fifth_ok_def ex_py_int_eight)
  have r0: "parse_candidates_file ex_filesystem 4300 ''/tmp/none.txt'' = Inr []"
    using parse_candidates_file_records [of ex_filesystem "''/tmp/none.txt''" 4300] n by blast
  have r1: "parse_candidates_file ex_filesystem 4300 ''/tmp/candidates.txt''
      = Inr (map (record_of 4300) (record_fields (file_lines ex_candidates_text)))"
    using parse_candidates_file_records [of ex_filesystem "''/tmp/candidates.txt''" 4300] s ok
    by blast
  have r2: "parse_candidates_file ex_bad_filesystem 4300 ''/tmp/candidates.txt'' = Inl ValueError"
    using parse_candidates_file_records [of ex_bad_filesystem "''/tmp/candidates.txt''" 4300]
      b bad
    by blast
  have r3: "\<exists>e. parse_candidates_file ex_bad_filesystem 4300 ''/tmp/partial.txt'' = Inl e"
    using parse_candidates_file_records [of ex_bad_filesystem "''/tmp/partial.txt''" 4300] p
    by blast
  show ?thesis
    using n r0 s r1 b r2 p r3 by (simp add: ex_record_fields record_of_def ex_py_int)
qed

section \<open>Properties of the Provisioner's loops\<close>

lemma py_contains_iff: "py_contains sub s \<longleftrightarrow> (\<exists>p q. s = p @ sub @ q)"
proof (induction s)
  case Nil
  then show ?case by auto
next
  case (Cons c cs)
  have "(\<exists>p q. c # cs = p @ sub @ q) \<longleftrightarrow> prefix sub (c # cs) \<or> (\<exists>p q. cs = p @ sub @ q)"
  proof
    assume "\<exists>p q. c # cs = p @ sub @ q"
    then obtain p q where e: "c # cs = p @ sub @ q" by blast
    show "prefix sub (c # cs) \<or> (\<exists>p q. cs = p @ sub @ q)"
    proof (cases p)
      case Nil
      then show ?thesis using e by (auto simp: prefix_def)
    next
      case (Cons x p')
      then show ?thesis using e by auto
    qed
  next
    assume "prefix sub (c # cs) \<or> (\<exists>p q. cs = p @ sub @ q)"
    then show "\<exists>p q. c # cs = p @ sub @ q"
    proof
      assume "prefix sub (c # cs)"
      then obtain q where "c # cs = sub @ q" by (auto simp: prefix_def)
      then have "c # cs = [] @ sub @ q" by simp
      then show ?thesis by blast
    next
      assume "\<exists>p q. cs = p @ sub @ q"
      then obtain p q where "cs = p @ sub @ q" by blast
      then have "c # cs = (c # p) @ sub @ q" by simp
      then show ?thesis by blast
    qed
  qed
  then show ?case using Cons by simp
qed

lemma create_instance_response:
  "create_instance E n a d = Inr (exit_code, response) \<longleftrightarrow>
     call_response (cli E n (create_command E a d)) = Some (exit_code, response)"
  by (auto simp: create_instance_def call_response_def split: cli_result.splits)

lemma create_instance_raised:
  "(\<exists>e. create_instance E n a d = Inl e) \<longleftrightarrow>
     call_response (cli E n (create_command E a d)) = None"
  by (auto simp: create_instance_def call_response_def split: cli_result.splits)

lemma disk_loop_next:
  "create_instance E (length issued) a (Some d) = Inr (exit_code, response) \<Longrightarrow>
   check_response (json_loads E) exit_code response = TryNext \<Longrightarrow>
   disk_loop E a issued last_response (d # rest)
     = disk_loop E a (issued @ [create_command E a (Some d)]) (Some response) rest"
  by simp

lemma disk_loop_give_up:
  "create_instance E (length issued) a (Some d) = Inr (exit_code, response) \<Longrightarrow>
   check_response (json_loads E) exit_code response = GiveUp \<Longrightarrow>
   disk_loop E a issued last_response (d # rest)
     = (DiskFailed (Some response), issued @ [create_command E a (Some d)])"
  by simp

lemma disk_loop_created:
  "create_instance E (length issued) a (Some d) = Inr (exit_code, response) \<Longrightarrow>
   check_response (json_loads E) exit_code response = Created i \<Longrightarrow>
   disk_loop E a issued last_response (d # rest)
     = (DiskCreated i, issued @ [create_command E a (Some d)])"
  by simp

lemma candidates_loop_failed:
  "cand = (t, z, v, p, n) \<Longrightarrow> v \<noteq> [] \<Longrightarrow>
   user_data_b64_of (c_user_data_content C) = Inr b \<Longrightarrow>
   disk_loop E (candidate_args C cand b) issued None disk_categories = (DiskFailed l, issued') \<Longrightarrow>
   candidates_loop E C issued (cand # rest) = candidates_loop E C issued' rest"
  by simp

lemma candidates_loop_created:
  "cand = (t, z, v, p, n) \<Longrightarrow> v \<noteq> [] \<Longrightarrow>
   user_data_b64_of (c_user_data_content C) = Inr b \<Longrightarrow>
   disk_loop E (candidate_args C cand b) issued None disk_categories = (DiskCreated i, issued') \<Longrightarrow>
   candidates_loop E C issued (cand # rest) = (Some (Succeeded i), issued')"
  by simp

text \<open>
  Claim C2, as stated, at a call that exits with code 0 and answers \<open>{}\<close>: the call is not a
  success and its response has neither the error code nor "not support", and yet the loop
  does not stop: all three disk categories are tried.
\<close>

theorem failed_call_counterexample:
  "check_response ex_json_loads 0 ''{}'' = TryNext \<and>
   \<not> unsupported_disk ''{}'' \<and>
   disk_loop (ex_env_of (ex_cli_const (Ran 0 ''{}'' []))) ex_args [] None disk_categories
     = (DiskFailed (Some ''{}''), ex_commands)"
  by code_simp

text \<open>
  Claim C2, amended. For every creation call that returns a non-zero exit code or an empty
  response: when the response contains \<open>InvalidSystemDiskCategory\<close>, or its lower-cased
  text contains \<open>not support\<close>, the loop goes on with the next disk category for the same
  candidate; otherwise the loop over the disk categories stops there, with no further
  creation call for that candidate. A candidate whose loop ends without an instance is
  followed by the next candidate in multi-attempt mode, and by the error exit in
  single-attempt mode. (A call that returns exit code 0 and a non-empty response is the
  matter of claims C3 and C9.)
\<close>

theorem failed_call_policy:
  "(create_instance E (length issued) a (Some d) = Inr (exit_code, response) \<and>
    (exit_code \<noteq> 0 \<or> response = []) \<longrightarrow>
      (unsupported_disk response \<longleftrightarrow>
         (\<exists>p q. response = p @ ''InvalidSystemDiskCategory'' @ q) \<or>
         (\<exists>p q. py_lower response = p @ ''not support'' @ q)) \<and>
      (unsupported_disk response \<longrightarrow>
         disk_loop E a issued l (d # rest)
           = disk_loop E a (issued @ [create_command E a (Some d)]) (Some response) rest) \<and>
      (\<not> unsupported_disk response \<longrightarrow>
         disk_loop E a issued l (d # rest)
           = (DiskFailed (Some response), issued @ [create_command E a (Some d)]))) \<and>
   (\<forall>t z v p n b l' issued'.
      v \<noteq> [] \<and> user_data_b64_of (c_user_data_content C) = Inr b \<and>
      disk_loop E (candidate_args C (t, z, v, p, n) b) issued None disk_categories
        = (DiskFailed l', issued') \<longrightarrow>
      candidates_loop E C issued ((t, z, v, p, n) # cands) = candidates_loop E C issued' cands) \<and>
   (\<forall>b l' issued'.
      \<not> multi_attempt E C \<and> truthy_opt (c_instance_type C) \<and> truthy_opt (c_vswitch_id C) \<and>
      user_data_b64_of (c_user_data_content C) = Inr b \<and>
      disk_loop E (single_args C b) [] None disk_categories = (DiskFailed l', issued') \<longrightarrow>
      create_main E C = (Failed (AllDiskCategoriesFailed l'), issued'))"
proof (intro conjI allI impI)
  assume h: "create_instance E (length issued) a (Some d) = Inr (exit_code, response) \<and>
    (exit_code \<noteq> 0 \<or> response = [])"
  show "unsupported_disk response \<longleftrightarrow>
         (\<exists>p q. response = p @ ''InvalidSystemDiskCategory'' @ q) \<or>
         (\<exists>p q. py_lower response = p @ ''not support'' @ q)"
    unfolding unsupported_disk_def py_contains_iff ..
  {
    assume u: "unsupported_disk response"
    have "check_response (json_loads E) exit_code response = TryNext"
      using h u by (auto simp: check_response_def unsupported_disk_def)
    then show "disk_loop E a issued l (d # rest)
           = disk_loop E a (issued @ [create_command E a (Some d)]) (Some response) rest"
      using h by (intro disk_loop_next) auto
  }
  {
    assume u: "\<not> unsupported_disk response"
    have "check_response (json_loads E) exit_code response = GiveUp"
      using h u by (auto simp: check_response_def unsupported_disk_def)
    then show "disk_loop E a issued l (d # rest)
           = (DiskFailed (Some response), issued @ [create_command E a (Some d)])"
      using h by (intro disk_loop_give_up) auto
  }
next
  fix t z v p n b l' issued'
  assume "v \<noteq> [] \<and> user_data_b64_of (c_user_data_content C) = Inr b \<and>
      disk_loop E (candidate_args C (t, z, v, p, n) b) issued None disk_categories
        = (DiskFailed l', issued')"
  then show "candidates_loop E C issued ((t, z, v, p, n) # cands) = candidates_loop E C issued' cands"
    by simp
next
  fix b l' issued'
  assume "\<not> multi_attempt E C \<and> truthy_opt (c_instance_type C) \<and> truthy_opt (c_vswitch_id C) \<and>
      user_data_b64_of (c_user_data_content C) = Inr b \<and>
      disk_loop E (single_args C b) [] None disk_categories = (DiskFailed l', issued')"
  then show "create_main E C = (Failed (AllDiskCategoriesFailed l'), issued')"
    by (simp add: create_main_def)
qed

lemma ex_first_call_unsupported:
  "create_instance (ex_env_of (ex_cli_const ex_unsupported)) (length ([] :: string list list))
      ex_args (Some ''cloud_essd'')
     = Inr (255, ''ErrorCode: InvalidSystemDiskCategory.ValueNotSupported'')"
  by code_simp

lemma ex_first_call_no_stock:
  "create_instance (ex_env_of (ex_cli_const ex_no_stock)) (length ([] :: string list list))
      ex_args (Some ''cloud_essd'')
     = Inr (255, ''ErrorCode: OperationDenied.NoStock'')"
  by code_simp

theorem failed_call_policy_witness:
  "unsupported_disk ''ErrorCode: InvalidSystemDiskCategory.ValueNotSupported'' \<and>
   disk_loop (ex_env_of (ex_cli_const ex_unsupported)) ex_args [] None
       [''cloud_essd'', ''cloud_ssd'', ''cloud_efficiency'']
     = (DiskFailed (Some ''ErrorCode: InvalidSystemDiskCategory.ValueNotSupported''), ex_commands) \<and>
   \<not> unsupported_disk ''ErrorCode: OperationDenied.NoStock'' \<and>
   disk_loop (ex_env_of (ex_cli_const ex_no_stock)) ex_args [] None
       [''cloud_essd'', ''cloud_ssd'', ''cloud_efficiency'']
     = (DiskFailed (Some ''ErrorCode: OperationDenied.NoStock''), [hd ex_commands]) \<and>
   candidates_loop (ex_env_of (ex_cli_const ex_no_stock)) ex_create_cfg []
       [ex_candidate_1, ex_candidate_2]
     = candidates_loop (ex_env_of (ex_cli_const ex_no_stock)) ex_create_cfg
         [create_command (ex_env_of (ex_cli_const ex_no_stock))
            (candidate_args ex_create_cfg ex_candidate_1 None) (Some ''cloud_essd'')]
         [ex_candidate_2] \<and>
   create_main (ex_env_of (ex_cli_const ex_no_stock)) ex_create_cfg
     = (Failed (AllDiskCategoriesFailed (Some ''ErrorCode: OperationDenied.NoStock'')),
        [hd ex_commands])"
proof -
  let ?U = "ex_env_of (ex_cli_const ex_unsupported)"
  let ?N = "ex_env_of (ex_cli_const ex_no_stock)"
  let ?u = "''ErrorCode: InvalidSystemDiskCategory.ValueNotSupported''"
  let ?n = "''ErrorCode: OperationDenied.NoStock''"
  have u: "unsupported_disk ?u" by code_simp
  have n: "\<not> unsupported_disk ?n" by code_simp
  have c: "create_command ?U ex_args (Some ''cloud_essd'') = hd ex_commands"
    "create_command ?N ex_args (Some ''cloud_essd'') = hd ex_commands"
    by code_simp+
  have step_u: "disk_loop ?U ex_args [] None [''cloud_essd'', ''cloud_ssd'', ''cloud_efficiency'']
      = disk_loop ?U ex_args ([] @ [create_command ?U ex_args (Some ''cloud_essd'')]) (Some ?u)
          [''cloud_ssd'', ''cloud_efficiency'']"
    using failed_call_policy [of ?U "[]" ex_args "''cloud_essd''" 255 ?u None
        "[''cloud_ssd'', ''cloud_efficiency'']"] ex_first_call_unsupported u
    by simp
  have rest_u: "disk_loop ?U ex_args ([] @ [hd ex_commands]) (Some ?u)
          [''cloud_ssd'', ''cloud_efficiency'']
      = (DiskFailed (Some ?u), ex_commands)"
    by code_simp
  have du: "disk_loop ?U ex_args [] None [''cloud_essd'', ''cloud_ssd'', ''cloud_efficiency'']
      = (DiskFailed (Some ?u), ex_commands)"
    using step_u rest_u c by simp
  have dn: "disk_loop ?N ex_args [] None [''cloud_essd'', ''cloud_ssd'', ''cloud_efficiency'']
      = (DiskFailed (Some ?n), [hd ex_commands])"
    using failed_call_policy [of ?N "[]" ex_args "''cloud_essd''" 255 ?n None
        "[''cloud_ssd'', ''cloud_efficiency'']"] ex_first_call_no_stock n c
    by simp
  have pre_c: "''vsw-k'' \<noteq> [] \<and> user_data_b64_of (c_user_data_content ex_create_cfg) = Inr None \<and>
      disk_loop ?N (candidate_args ex_create_cfg
          (''ecs.c7.2xlarge'', ''cn-hangzhou-k'', ''vsw-k'', ''0.4800'', Some 8) None) []
        None disk_categories
        = (DiskFailed (Some ?n),
           [create_command ?N (candidate_args ex_create_cfg ex_candidate_1 None) (Some ''cloud_essd'')])"
    by code_simp
  have cl: "candidates_loop ?N ex_create_cfg [] [ex_candidate_1, ex_candidate_2]
     = candidates_loop ?N ex_create_cfg
         [create_command ?N (candidate_args ex_create_cfg ex_candidate_1 None) (Some ''cloud_essd'')]
         [ex_candidate_2]"
    using failed_call_policy [where E = ?N and C = ex_create_cfg and issued = "[]"
        and cands = "[ex_candidate_2]", THEN conjunct2, THEN conjunct1, rule_format, OF pre_c]
    by (simp add: ex_candidate_1_def)
  have pre_m: "\<not> multi_attempt ?N ex_create_cfg \<and> truthy_opt (c_instance_type ex_create_cfg) \<and>
      truthy_opt (c_vswitch_id ex_create_cfg) \<and>
      user_data_b64_of (c_user_data_content ex_create_cfg) = Inr None \<and>
      disk_loop ?N (single_args ex_create_cfg None) [] None disk_categories
        = (DiskFailed (Some ?n), [hd ex_commands])"
    by code_simp
  have m: "create_main ?N ex_create_cfg
     = (Failed (AllDiskCategoriesFailed (Some ?n)), [hd ex_commands])"
    using failed_call_policy [where E = ?N and C = ex_create_cfg,
        THEN conjunct2, THEN conjunct2, rule_format, OF pre_m] .
  show ?thesis
    using u du n dn cl m by blast
qed

text \<open>
  Claim C9, as stated, at a call that exits with code 0 and answers nothing: no identifier
  can be extracted from the empty response, and yet the attempt is handled by the branch
  of the failures, which tests the pattern, finds nothing and leaves the loop: the other
  two disk categories are not tried.
\<close>

theorem no_identifier_counterexample:
  "extract_instance_id ex_json_loads [] = Inr JNull \<and>
   check_response ex_json_loads 0 [] = GiveUp \<and>
   disk_loop (ex_env_of (ex_cli_const (Ran 0 [] []))) ex_args [] None disk_categories
     = (DiskFailed (Some []), [hd ex_commands])"
  by code_simp

text \<open>
  Claim C9, amended. When a creation call returns exit code 0 and a non-empty response from
  which the extraction returns no usable identifier (the extracted value is false, as
  \<open>None\<close> and the empty string are, or is the string \<open>null\<close>), the attempt is not a success,
  the pattern of the unsupported disk category is not consulted, and the loop goes on with
  the next disk category for the same candidate. When the extraction does not return,
  which is when \<open>json.loads\<close> raises an exception other than \<open>JSONDecodeError\<close> on the
  response, that exception ends the loop and the Provisioner at this call, in either mode.
\<close>

theorem no_identifier_tries_next:
  "(create_instance E (length issued) a (Some d) = Inr (0, response) \<and> response \<noteq> [] \<longrightarrow>
     (\<forall>instance_id.
        extract_instance_id (json_loads E) response = Inr instance_id \<and>
        (\<not> truthy instance_id \<or> instance_id = JString ''null'') \<longrightarrow>
          check_response (json_loads E) 0 response = TryNext \<and>
          disk_loop E a issued l (d # rest)
            = disk_loop E a (issued @ [create_command E a (Some d)]) (Some response) rest) \<and>
     (\<forall>e. extract_instance_id (json_loads E) response = Inl e \<longrightarrow>
          check_response (json_loads E) 0 response = Died \<and>
          disk_loop E a issued l (d # rest)
            = (DiskRaised, issued @ [create_command E a (Some d)])) \<and>
     ((\<exists>e. extract_instance_id (json_loads E) response = Inl e)
        \<longleftrightarrow> json_loads E response = LoadsRaised)) \<and>
   (\<forall>t z v p n b issued'.
      v \<noteq> [] \<and> user_data_b64_of (c_user_data_content C) = Inr b \<and>
      disk_loop E (candidate_args C (t, z, v, p, n) b) issued None disk_categories
        = (DiskRaised, issued') \<longrightarrow>
      candidates_loop E C issued ((t, z, v, p, n) # cands)
        = (Some (Failed UncaughtException), issued')) \<and>
   (\<forall>b issued'.
      \<not> multi_attempt E C \<and> truthy_opt (c_instance_type C) \<and> truthy_opt (c_vswitch_id C) \<and>
      user_data_b64_of (c_user_data_content C) = Inr b \<and>
      disk_loop E (single_args C b) [] None disk_categories = (DiskRaised, issued') \<longrightarrow>
      create_main E C = (Failed UncaughtException, issued'))"
proof (intro conjI allI impI)
  fix instance_id
  assume h: "create_instance E (length issued) a (Some d) = Inr (0, response) \<and> response \<noteq> []"
    and x: "extract_instance_id (json_loads E) response = Inr instance_id \<and>
        (\<not> truthy instance_id \<or> instance_id = JString ''null'')"
  show v: "check_response (json_loads E) 0 response = TryNext"
    using h x by (auto simp: check_response_def)
  show "disk_loop E a issued l (d # rest)
       = disk_loop E a (issued @ [create_command E a (Some d)]) (Some response) rest"
    using h v by (intro disk_loop_next) auto
next
  fix e
  assume h: "create_instance E (length issued) a (Some d) = Inr (0, response) \<and> response \<noteq> []"
    and x: "extract_instance_id (json_loads E) response = Inl e"
  show v: "check_response (json_loads E) 0 response = Died"
    using h x by (auto simp: check_response_def)
  show "disk_loop E a issued l (d # rest)
       = (DiskRaised, issued @ [create_command E a (Some d)])"
    using h v by simp
next
  show "(\<exists>e. extract_instance_id (json_loads E) response = Inl e)
        \<longleftrightarrow> json_loads E response = LoadsRaised"
    by (auto simp: extract_instance_id_def Let_def
        split: loads_result.splits json.splits list.splits)
next
  fix t z v p n b issued'
  assume "v \<noteq> [] \<and> user_data_b64_of (c_user_data_content C) = Inr b \<and>
      disk_loop E (candidate_args C (t, z, v, p, n) b) issued None disk_categories
        = (DiskRaised, issued')"
  then show "candidates_loop E C issued ((t, z, v, p, n) # cands)
        = (Some (Failed UncaughtException), issued')"
    by simp
next
  fix b issued'
  assume "\<not> multi_attempt E C \<and> truthy_opt (c_instance_type C) \<and> truthy_opt (c_vswitch_id C) \<and>
      user_data_b64_of (c_user_data_content C) = Inr b \<and>
      disk_loop E (single_args C b) [] None disk_categories = (DiskRaised, issued')"
  then show "create_main E C = (Failed UncaughtException, issued')"
    by (simp add: create_main_def)
qed

lemma ex_deep_loads: "ex_json_loads ex_deep_response = LoadsRaised"
  by (simp add: ex_json_loads_def ex_deep_response_def quoted_def ex_deep_neq)

lemma ex_deep_nonempty: "ex_deep_response \<noteq> []"
  by (simp add: ex_deep_response_def)

theorem no_identifier_tries_next_witness:
  "create_instance (ex_env_of (ex_cli_const (Ran 0 ex_null_response []))) 0 ex_args
       (Some ''cloud_essd'') = Inr (0, ex_null_response) \<and>
   ex_null_response \<noteq> [] \<and>
   extract_instance_id ex_json_loads ex_null_response = Inr (JString ''null'') \<and>
   check_response ex_json_loads 0 ex_null_response = TryNext \<and>
   disk_loop (ex_env_of (ex_cli_const (Ran 0 ex_null_response []))) ex_args [] None
       [''cloud_essd'', ''cloud_ssd'', ''cloud_efficiency'']
     = (DiskFailed (Some ex_null_response), ex_commands) \<and>
   ex_json_loads ex_deep_response = LoadsRaised \<and>
   extract_instance_id ex_json_loads ex_deep_response = Inl OtherException \<and>
   disk_loop (ex_env_of (ex_cli_const (Ran 0 ex_deep_response []))) ex_args [] None
       [''cloud_essd'', ''cloud_ssd'', ''cloud_efficiency'']
     = (DiskRaised, [hd ex_commands]) \<and>
   create_main (ex_env_of (ex_cli_const (Ran 0 ex_deep_response []))) ex_create_cfg
     = (Failed UncaughtException, [hd ex_commands])"
proof -
  let ?E = "ex_env_of (ex_cli_const (Ran 0 ex_null_response []))"
  let ?D = "ex_env_of (ex_cli_const (Ran 0 ex_deep_response []))"
  have c: "create_instance ?E (length ([] :: string list list)) ex_args (Some ''cloud_essd'')
      = Inr (0, ex_null_response)"
    by code_simp
  have ne: "ex_null_response \<noteq> []" by code_simp
  have x: "extract_instance_id (json_loads ?E) ex_null_response = Inr (JString ''null'')"
    by code_simp
  have l: "json_loads ?E = ex_json_loads" "json_loads ?D = ex_json_loads"
    by (simp_all add: ex_env_of_def)
  note th = no_identifier_tries_next [of ?E "[]" ex_args "''cloud_essd''" ex_null_response
      None "[''cloud_ssd'', ''cloud_efficiency'']", THEN conjunct1, THEN mp, OF conjI [OF c ne],
      THEN conjunct1, rule_format, OF conjI [OF x disjI2 [OF refl]]]
  have rest: "disk_loop ?E ex_args ([] @ [create_command ?E ex_args (Some ''cloud_essd'')])
        (Some ex_null_response) [''cloud_ssd'', ''cloud_efficiency'']
      = (DiskFailed (Some ex_null_response), ex_commands)"
    by code_simp
  have cd: "create_instance ?D (length ([] :: string list list)) ex_args (Some ''cloud_essd'')
      = Inr (0, ex_deep_response)"
    by (simp add: create_instance_def ex_env_of_def ex_cli_const_def)
  have kd: "create_command ?D ex_args (Some ''cloud_essd'') = hd ex_commands"
    by (simp add: create_command_def ex_commands_def disk_categories_def truthy_opt_def)
  have xd: "extract_instance_id (json_loads ?D) ex_deep_response = Inl OtherException"
    by (simp add: l extract_instance_id_def ex_deep_loads)
  note td = no_identifier_tries_next [of ?D "[]" ex_args "''cloud_essd''" ex_deep_response
      None "[''cloud_ssd'', ''cloud_efficiency'']" ex_create_cfg]
  have dd: "disk_loop ?D ex_args [] None [''cloud_essd'', ''cloud_ssd'', ''cloud_efficiency'']
      = (DiskRaised, [hd ex_commands])"
    using td [THEN conjunct1, THEN mp, OF conjI [OF cd ex_deep_nonempty],
        THEN conjunct2, THEN conjunct1, rule_format, OF xd] kd
    by simp
  have pre: "\<not> multi_attempt ?D ex_create_cfg \<and> truthy_opt (c_instance_type ex_create_cfg) \<and>
      truthy_opt (c_vswitch_id ex_create_cfg) \<and>
      user_data_b64_of (c_user_data_content ex_create_cfg) = Inr None \<and>
      disk_loop ?D (single_args ex_create_cfg None) [] None disk_categories
        = (DiskRaised, [hd ex_commands])"
    using dd
    by (simp add: multi_attempt_def ex_create_cfg_def truthy_opt_def user_data_b64_of_def
        ex_args_def disk_categories_def)
  have md: "create_main ?D ex_create_cfg = (Failed UncaughtException, [hd ex_commands])"
    using td [THEN conjunct2, THEN conjunct2, rule_format, OF pre] .
  show ?thesis
    using c ne x th rest l ex_deep_loads xd dd md by simp
qed

lemma unsupported_failure_next:
  "unsupported_failure E n (create_command E a (Some d)) \<Longrightarrow>
   \<exists>exit_code response. create_instance E n a (Some d) = Inr (exit_code, response) \<and>
     check_response (json_loads E) exit_code response = TryNext"
proof -
  assume u: "unsupported_failure E n (create_command E a (Some d))"
  then obtain exit_code response where
    r: "call_response (cli E n (create_command E a (Some d))) = Some (exit_code, response)"
    and nc: "failed_attempt (json_loads E) exit_code response"
    and us: "unsupported_disk response"
    by (auto simp: unsupported_failure_def split: option.splits)
  have "check_response (json_loads E) exit_code response = TryNext"
    using nc us by (auto simp: check_response_def failed_attempt_def unsupported_disk_def
        split: if_splits sum.splits)
  then show ?thesis
    using r create_instance_response by blast
qed

lemma disk_loop_all_unsupported:
  "(\<forall>j < length ds. unsupported_failure E (length issued + j) (create_command E a (Some (ds ! j))))
   \<Longrightarrow> \<exists>l'. disk_loop E a issued l ds
          = (DiskFailed l', issued @ map (\<lambda>d. create_command E a (Some d)) ds)"
proof (induction ds arbitrary: issued l)
  case Nil
  then show ?case by simp
next
  case (Cons d ds)
  have "unsupported_failure E (length issued) (create_command E a (Some d))"
    using Cons.prems by (auto dest: spec [of _ 0])
  then obtain exit_code response where
    c: "create_instance E (length issued) a (Some d) = Inr (exit_code, response)"
    and v: "check_response (json_loads E) exit_code response = TryNext"
    using unsupported_failure_next by blast
  have s: "disk_loop E a issued l (d # ds)
      = disk_loop E a (issued @ [create_command E a (Some d)]) (Some response) ds"
    using c v by (rule disk_loop_next)
  have "\<forall>j < length ds. unsupported_failure E
      (length (issued @ [create_command E a (Some d)]) + j) (create_command E a (Some (ds ! j)))"
    using Cons.prems by (auto dest: spec [of _ "Suc j" for j])
  from Cons.IH [OF this, of "Some response"] s show ?case by auto
qed

lemma disk_loop_second_created:
  "unsupported_failure E (length issued) (create_command E a (Some d1)) \<Longrightarrow>
   call_verdict E (Suc (length issued)) (create_command E a (Some d2)) = Some (Created i) \<Longrightarrow>
   disk_loop E a issued l (d1 # d2 # ds)
     = (DiskCreated i, issued @ [create_command E a (Some d1), create_command E a (Some d2)])"
proof -
  assume u: "unsupported_failure E (length issued) (create_command E a (Some d1))"
    and s: "call_verdict E (Suc (length issued)) (create_command E a (Some d2)) = Some (Created i)"
  obtain exit_code response where
    c: "create_instance E (length issued) a (Some d1) = Inr (exit_code, response)"
    and v: "check_response (json_loads E) exit_code response = TryNext"
    using unsupported_failure_next [OF u] by blast
  obtain e2 r2 where
    c2: "call_response (cli E (Suc (length issued)) (create_command E a (Some d2))) = Some (e2, r2)"
    and v2: "check_response (json_loads E) e2 r2 = Created i"
    using s by (auto simp: call_verdict_def split: option.splits)
  have c2': "create_instance E (length (issued @ [create_command E a (Some d1)])) a (Some d2)
      = Inr (e2, r2)"
    using c2 create_instance_response by simp
  show ?thesis
    using disk_loop_next [OF c v, of l "d2 # ds"]
      disk_loop_created [OF c2' v2, of "Some response" ds]
    by simp
qed

text \<open>
  Claim C1. In multi-attempt mode, let the candidate file have exactly three entries, all of
  them attempted (each has a subnet identifier, and the user data, if any, encodes). When
  the three creation calls for entry 1 and the three for entry 2 fail with an
  unsupported-disk-category response, the call for entry 3 with the first disk category
  fails so too, and the call for entry 3 with the second disk category succeeds with the
  identifier \<open>i\<close>, then the Provisioner prints \<open>i\<close>, exits with status 0, and has made exactly
  these eight creation calls: three for entry 1, three for entry 2, two for entry 3.
\<close>

theorem three_candidates_eight_calls:
  assumes "multi_attempt E C"
    and "parse_candidates_file (files E) (int_max_str_digits E) (the (c_candidates_file C))
           = Inr [c1, c2, c3]"
    and "cand_vswitch_id c1 \<noteq> []" and "cand_vswitch_id c2 \<noteq> []" and "cand_vswitch_id c3 \<noteq> []"
    and "user_data_b64_of (c_user_data_content C) = Inr b"
    and "\<forall>j < 3. unsupported_failure E j (candidate_command E C b c1 (disk_categories ! j))"
    and "\<forall>j < 3. unsupported_failure E (3 + j) (candidate_command E C b c2 (disk_categories ! j))"
    and "unsupported_failure E 6 (candidate_command E C b c3 ''cloud_essd'')"
    and "call_verdict E 7 (candidate_command E C b c3 ''cloud_ssd'') = Some (Created i)"
  shows "create_main E C =
           (Succeeded i,
            map (candidate_command E C b c1) disk_categories
            @ map (candidate_command E C b c2) disk_categories
            @ [candidate_command E C b c3 ''cloud_essd'', candidate_command E C b c3 ''cloud_ssd''])
         \<and> printed (fst (create_main E C)) = [i]
         \<and> exit_status (fst (create_main E C)) = 0
         \<and> length (snd (create_main E C)) = 8"
proof -
  let ?k1 = "map (candidate_command E C b c1) disk_categories"
  let ?k2 = "map (candidate_command E C b c2) disk_categories"
  obtain t1 z1 v1 p1 n1 where c1: "c1 = (t1, z1, v1, p1, n1)" by (cases c1) auto
  obtain t2 z2 v2 p2 n2 where c2: "c2 = (t2, z2, v2, p2, n2)" by (cases c2) auto
  obtain t3 z3 v3 p3 n3 where c3: "c3 = (t3, z3, v3, p3, n3)" by (cases c3) auto
  have v: "v1 \<noteq> []" "v2 \<noteq> []" "v3 \<noteq> []"
    using assms(3-5) by (simp_all add: cand_vswitch_id_def c1 c2 c3)
  have len: "length disk_categories = 3" by (simp add: disk_categories_def)
  have cmd: "\<And>c. map (\<lambda>d. create_command E (candidate_args C c b) (Some d)) disk_categories
      = map (candidate_command E C b c) disk_categories"
    by (simp add: candidate_command_def)
  have "\<forall>j < length disk_categories. unsupported_failure E (length ([] :: string list list) + j)
      (create_command E (candidate_args C c1 b) (Some (disk_categories ! j)))"
    using assms(7) by (simp add: len candidate_command_def)
  from disk_loop_all_unsupported [OF this, of None]
  obtain l1 where d1: "disk_loop E (candidate_args C c1 b) [] None disk_categories
      = (DiskFailed l1, ?k1)"
    by (auto simp: cmd)
  have "\<forall>j < length disk_categories. unsupported_failure E (length ?k1 + j)
      (create_command E (candidate_args C c2 b) (Some (disk_categories ! j)))"
    using assms(8) by (simp add: len candidate_command_def)
  from disk_loop_all_unsupported [OF this, of None]
  obtain l2 where d2: "disk_loop E (candidate_args C c2 b) ?k1 None disk_categories
      = (DiskFailed l2, ?k1 @ ?k2)"
    by (auto simp: cmd)
  have u3: "unsupported_failure E (length (?k1 @ ?k2))
      (create_command E (candidate_args C c3 b) (Some ''cloud_essd''))"
    using assms(9) by (simp add: len candidate_command_def)
  have s3: "call_verdict E (Suc (length (?k1 @ ?k2)))
      (create_command E (candidate_args C c3 b) (Some ''cloud_ssd'')) = Some (Created i)"
    using assms(10) by (simp add: len candidate_command_def)
  have d3: "disk_loop E (candidate_args C c3 b) (?k1 @ ?k2) None disk_categories
      = (DiskCreated i, (?k1 @ ?k2) @ [candidate_command E C b c3 ''cloud_essd'',
                                       candidate_command E C b c3 ''cloud_ssd''])"
    using disk_loop_second_created [OF u3 s3, of None "[''cloud_efficiency'']"]
    by (simp add: disk_categories_def candidate_command_def)
  have l3: "candidates_loop E C (?k1 @ ?k2) [c3]
      = (Some (Succeeded i), (?k1 @ ?k2) @ [candidate_command E C b c3 ''cloud_essd'',
                                       candidate_command E C b c3 ''cloud_ssd''])"
    using candidates_loop_created [OF c3 v(3) assms(6) d3] .
  have l2: "candidates_loop E C ?k1 [c2, c3] = candidates_loop E C (?k1 @ ?k2) [c3]"
    using candidates_loop_failed [OF c2 v(2) assms(6) d2] .
  have l1: "candidates_loop E C [] [c1, c2, c3] = candidates_loop E C ?k1 [c2, c3]"
    using candidates_loop_failed [OF c1 v(1) assms(6) d1] .
  have m: "create_main E C =
           (Succeeded i, ?k1 @ ?k2
            @ [candidate_command E C b c3 ''cloud_essd'', candidate_command E C b c3 ''cloud_ssd''])"
    using assms(1,2) l1 l2 l3 by (simp add: create_main_def)
  show ?thesis
    unfolding m by (simp add: len)
qed

lemma ex_three_fields:
  "record_fields (file_lines ex_three_text) =
     [[''ecs.c7.2xlarge'', ''cn-hangzhou-k'', ''vsw-k'', ''0.4800'', ''8''],
      [''ecs.g7.2xlarge'', ''cn-hangzhou-j'', ''vsw-j'', ''0.5200'', ''8''],
      [''ecs.c6.2xlarge'', ''cn-hangzhou-i'', ''vsw-i'', ''0.5600'', '''']]"
  by code_simp

lemma ex_multi_parse:
  "parse_candidates_file (files ex_multi_env) (int_max_str_digits ex_multi_env)
       (the (c_candidates_file ex_multi_cfg))
     = Inr [ex_candidate_1, ex_candidate_2, ex_candidate_3]"
proof -
  have "\<forall>parts \<in> set (record_fields (file_lines ex_three_text)). fifth_ok 4300 parts"
    by (simp add: ex_three_fields fifth_ok_def ex_py_int)
  from parse_candidate_lines_ok [OF this, of "[]"] show ?thesis
    by (simp add: parse_candidates_file_def ex_multi_env_def ex_multi_cfg_def ex_three_fields
        record_of_def ex_py_int ex_candidate_1_def ex_candidate_2_def ex_candidate_3_def)
qed

lemma ex_multi_calls:
  "\<forall>j < 3. unsupported_failure ex_multi_env j
      (candidate_command ex_multi_env ex_multi_cfg (Some ''IyEK'') ex_candidate_1 (disk_categories ! j))"
  "\<forall>j < 3. unsupported_failure ex_multi_env (3 + j)
      (candidate_command ex_multi_env ex_multi_cfg (Some ''IyEK'') ex_candidate_2 (disk_categories ! j))"
proof -
  have u: "unsupported_disk ''ErrorCode: InvalidSystemDiskCategory.ValueNotSupported''"
    by code_simp
  have "\<And>n cmd. n < 7 \<Longrightarrow> unsupported_failure ex_multi_env n cmd"
    using u
    by (simp add: unsupported_failure_def ex_multi_env_def ex_cli_seven_def ex_unsupported_def
        call_response_def failed_attempt_def)
  then show
    "\<forall>j < 3. unsupported_failure ex_multi_env j
      (candidate_command ex_multi_env ex_multi_cfg (Some ''IyEK'') ex_candidate_1 (disk_categories ! j))"
    "\<forall>j < 3. unsupported_failure ex_multi_env (3 + j)
      (candidate_command ex_multi_env ex_multi_cfg (Some ''IyEK'') ex_candidate_2 (disk_categories ! j))"
    by simp_all
qed

theorem three_candidates_eight_calls_witness:
  "multi_attempt ex_multi_env ex_multi_cfg \<and>
   parse_candidates_file (files ex_multi_env) (int_max_str_digits ex_multi_env)
       (the (c_candidates_file ex_multi_cfg))
     = Inr [ex_candidate_1, ex_candidate_2, ex_candidate_3] \<and>
   create_main ex_multi_env ex_multi_cfg =
     (Succeeded (JString ''i-abc''),
      map (candidate_command ex_multi_env ex_multi_cfg (Some ''IyEK'') ex_candidate_1) disk_categories
      @ map (candidate_command ex_multi_env ex_multi_cfg (Some ''IyEK'') ex_candidate_2) disk_categories
      @ [candidate_command ex_multi_env ex_multi_cfg (Some ''IyEK'') ex_candidate_3 ''cloud_essd'',
         candidate_command ex_multi_env ex_multi_cfg (Some ''IyEK'') ex_candidate_3 ''cloud_ssd'']) \<and>
   printed (fst (create_main ex_multi_env ex_multi_cfg)) = [JString ''i-abc''] \<and>
   exit_status (fst (create_main ex_multi_env ex_multi_cfg)) = 0 \<and>
   length (snd (create_main ex_multi_env ex_multi_cfg)) = 8"
proof -
  have m: "multi_attempt ex_multi_env ex_multi_cfg" by code_simp
  have v: "cand_vswitch_id ex_candidate_1 \<noteq> []" "cand_vswitch_id ex_candidate_2 \<noteq> []"
    "cand_vswitch_id ex_candidate_3 \<noteq> []"
    by code_simp+
  have b: "user_data_b64_of (c_user_data_content ex_multi_cfg) = Inr (Some ''IyEK'')"
    by code_simp
  have u: "unsupported_failure ex_multi_env 6
      (candidate_command ex_multi_env ex_multi_cfg (Some ''IyEK'') ex_candidate_3 ''cloud_essd'')"
    by code_simp
  have s: "call_verdict ex_multi_env 7
      (candidate_command ex_multi_env ex_multi_cfg (Some ''IyEK'') ex_candidate_3 ''cloud_ssd'')
      = Some (Created (JString ''i-abc''))"
    by code_simp
  show ?thesis
    using three_candidates_eight_calls [OF m ex_multi_parse v b ex_multi_calls u s]
      m ex_multi_parse by blast
qed

section \<open>Success of a creation call\<close>

lemma dict_get_map_of:
  "dict_get kvs k dflt = (case map_of kvs k of Some v \<Rightarrow> v | None \<Rightarrow> dflt)"
  by (induction kvs) auto

lemma extract_instance_id_eq:
  "extract_instance_id loads response =
     (case loads response of
        LoadsRaised \<Rightarrow> Inl OtherException
      | _ \<Rightarrow>
          Inr (case json_instance_id (loads response) of
                 Some v \<Rightarrow> v
               | None \<Rightarrow>
                   (case search_instance_id response of Some g \<Rightarrow> JString g | None \<Rightarrow> JNull)))"
  by (auto simp: extract_instance_id_def json_instance_id_def dict_get_map_of Let_def
      split: option.splits json.splits list.splits loads_result.splits)

lemma check_response_Created:
  "check_response loads exit_code response = Created i \<longleftrightarrow>
     exit_code = 0 \<and> response \<noteq> [] \<and> extract_instance_id loads response = Inr i \<and> usable_id i"
  by (auto simp: check_response_def usable_id_def split: sum.splits)

lemma check_response_Died:
  "check_response loads exit_code response = Died \<longleftrightarrow>
     exit_code = 0 \<and> response \<noteq> [] \<and> loads response = LoadsRaised"
  by (auto simp: check_response_def extract_instance_id_eq
      split: sum.splits loads_result.splits)

lemma went_on_Nil: "went_on E []"
  by (simp add: went_on_def)

lemma went_on_snoc:
  "went_on E (issued @ [c]) \<longleftrightarrow>
     went_on E issued \<and>
     (call_verdict E (length issued) c = Some TryNext \<or>
      call_verdict E (length issued) c = Some GiveUp)"
  by (auto simp: went_on_def less_Suc_eq nth_append)

lemma ends_with_snoc:
  "went_on E issued \<Longrightarrow> call_verdict E (length issued) c = v \<Longrightarrow> ends_with E (issued @ [c]) v"
  by (simp add: ends_with_def)

lemma call_verdict_create_instance:
  "create_instance E n a d = Inr (exit_code, response) \<Longrightarrow>
   call_verdict E n (create_command E a d) = Some (check_response (json_loads E) exit_code response)"
  by (simp add: call_verdict_def create_instance_response)

lemma call_verdict_raised:
  "create_instance E n a d = Inl e \<Longrightarrow> call_verdict E n (create_command E a d) = None"
  using create_instance_raised [of E n a d] by (auto simp: call_verdict_def)

lemma disk_loop_log:
  "went_on E issued \<Longrightarrow> disk_loop E a issued l ds = (r, issued') \<Longrightarrow>
   (case r of
      DiskCreated i \<Rightarrow> ends_with E issued' (Some (Created i))
    | DiskFailed l' \<Rightarrow> went_on E issued'
    | DiskRaised \<Rightarrow> ends_with E issued' None \<or> ends_with E issued' (Some Died))"
proof (induction ds arbitrary: issued l)
  case Nil
  then show ?case by auto
next
  case (Cons d ds)
  let ?c = "create_command E a (Some d)"
  show ?case
  proof (cases "create_instance E (length issued) a (Some d)")
    case (Inl e)
    have "ends_with E (issued @ [?c]) None"
      using Cons.prems(1) call_verdict_raised [OF Inl] by (rule ends_with_snoc)
    then show ?thesis
      using Cons.prems(2) Inl by auto
  next
    case (Inr p)
    obtain exit_code response where p: "p = (exit_code, response)" by (cases p)
    have cv: "call_verdict E (length issued) ?c
        = Some (check_response (json_loads E) exit_code response)"
      using Inr p call_verdict_create_instance by simp
    show ?thesis
    proof (cases "check_response (json_loads E) exit_code response")
      case (Created i)
      have "ends_with E (issued @ [?c]) (Some (Created i))"
        using Cons.prems(1) cv Created by (intro ends_with_snoc) simp_all
      then show ?thesis
        using Cons.prems(2) Inr p Created by auto
    next
      case TryNext
      have ns: "went_on E (issued @ [?c])"
        using Cons.prems(1) cv TryNext by (simp add: went_on_snoc)
      have "disk_loop E a (issued @ [?c]) (Some response) ds = (r, issued')"
        using Cons.prems(2) Inr p TryNext by simp
      from Cons.IH [OF ns this] show ?thesis .
    next
      case GiveUp
      have ns: "went_on E (issued @ [?c])"
        using Cons.prems(1) cv GiveUp by (simp add: went_on_snoc)
      then show ?thesis
        using Cons.prems(2) Inr p GiveUp by auto
    next
      case Died
      have "ends_with E (issued @ [?c]) (Some Died)"
        using Cons.prems(1) cv Died by (intro ends_with_snoc) simp_all
      then show ?thesis
        using Cons.prems(2) Inr p Died by auto
    qed
  qed
qed

lemma candidates_loop_log:
  "went_on E issued \<Longrightarrow> candidates_loop E C issued cands = (r, issued') \<Longrightarrow>
   (case r of
      None \<Rightarrow> went_on E issued'
    | Some (Succeeded i) \<Rightarrow> ends_with E issued' (Some (Created i))
    | Some (Failed e) \<Rightarrow>
        went_on E issued' \<or>
        (e = UncaughtException \<and>
         (ends_with E issued' None \<or> ends_with E issued' (Some Died))))"
proof (induction cands arbitrary: issued)
  case Nil
  then show ?case by auto
next
  case (Cons cand cands)
  obtain t z v p n where cand: "cand = (t, z, v, p, n)" by (cases cand) auto
  show ?case
  proof (cases "v = []")
    case True
    then show ?thesis using Cons cand by simp
  next
    case False
    show ?thesis
    proof (cases "user_data_b64_of (c_user_data_content C)")
      case (Inl e)
      then show ?thesis using Cons.prems cand False by auto
    next
      case (Inr b)
      obtain dr di where d: "disk_loop E (candidate_args C cand b) issued None disk_categories = (dr, di)"
        by (cases "disk_loop E (candidate_args C cand b) issued None disk_categories")
      note dl = disk_loop_log [OF Cons.prems(1) d]
      show ?thesis
      proof (cases dr)
        case (DiskCreated i)
        then show ?thesis using Cons.prems(2) cand False Inr d dl by auto
      next
        case (DiskFailed l)
        then have "candidates_loop E C di cands = (r, issued')"
          using Cons.prems(2) cand False Inr d by simp
        moreover have "went_on E di" using dl DiskFailed by simp
        ultimately show ?thesis using Cons.IH by blast
      next
        case DiskRaised
        then show ?thesis using Cons.prems(2) cand False Inr d dl by auto
      qed
    qed
  qed
qed

lemma create_main_log:
  "create_main E C = (out, issued) \<Longrightarrow>
   (case out of
      Succeeded i \<Rightarrow> ends_with E issued (Some (Created i))
    | Failed e \<Rightarrow>
        went_on E issued \<or>
        (e = UncaughtException \<and>
         (ends_with E issued None \<or> ends_with E issued (Some Died))))"
proof -
  assume m: "create_main E C = (out, issued)"
  show ?thesis
  proof (cases "multi_attempt E C")
    case True
    show ?thesis
    proof (cases "parse_candidates_file (files E) (int_max_str_digits E)
        (the (c_candidates_file C))")
      case (Inl e)
      then show ?thesis using m True by (auto simp: create_main_def went_on_Nil)
    next
      case (Inr cands)
      obtain r li where l: "candidates_loop E C [] cands = (r, li)"
        by (cases "candidates_loop E C [] cands")
      note cl = candidates_loop_log [OF went_on_Nil l]
      show ?thesis
      proof (cases r)
        case None
        then show ?thesis using m True Inr l cl by (auto simp: create_main_def)
      next
        case (Some res)
        then show ?thesis using m True Inr l cl
          by (cases res) (auto simp: create_main_def)
      qed
    qed
  next
    case False
    show ?thesis
    proof (cases "truthy_opt (c_instance_type C) \<and> truthy_opt (c_vswitch_id C)")
      case no: False
      then show ?thesis
        using m False by (auto simp: create_main_def went_on_Nil split: if_splits)
    next
      case True
      show ?thesis
      proof (cases "user_data_b64_of (c_user_data_content C)")
        case (Inl e)
        then show ?thesis using m False True by (auto simp: create_main_def went_on_Nil)
      next
        case (Inr b)
        obtain dr di where d: "disk_loop E (single_args C b) [] None disk_categories = (dr, di)"
          by (cases "disk_loop E (single_args C b) [] None disk_categories")
        note dl = disk_loop_log [OF went_on_Nil d]
        show ?thesis
          using m False True Inr d dl by (cases dr) (auto simp: create_main_def)
      qed
    qed
  qed
qed

lemma went_on_call:
  "went_on E issued \<Longrightarrow> k < length issued \<Longrightarrow>
   call_verdict E k (issued ! k) = Some TryNext \<or> call_verdict E k (issued ! k) = Some GiveUp"
  by (simp add: went_on_def)

lemma ends_with_call:
  "ends_with E issued v \<Longrightarrow> k < length issued \<Longrightarrow>
   (Suc k = length issued \<and> call_verdict E k (issued ! k) = v) \<or>
   (Suc k < length issued \<and>
    (call_verdict E k (issued ! k) = Some TryNext \<or> call_verdict E k (issued ! k) = Some GiveUp))"
proof -
  assume e: "ends_with E issued v" and k: "k < length issued"
  have ne: "issued \<noteq> []" using e by (simp add: ends_with_def)
  show ?thesis
  proof (cases "Suc k = length issued")
    case True
    then have "k = length issued - 1" by simp
    moreover have "last issued = issued ! (length issued - 1)" using ne by (rule last_conv_nth)
    ultimately show ?thesis using e True by (simp add: ends_with_def)
  next
    case False
    then have b: "k < length (butlast issued)" using k by simp
    then have "butlast issued ! k = issued ! k" by (simp add: nth_butlast)
    moreover have "went_on E (butlast issued)" using e by (simp add: ends_with_def)
    ultimately show ?thesis
      using went_on_call [of E "butlast issued" k] b False k by auto
  qed
qed

lemma create_main_calls:
  "create_main E C = (out, issued) \<Longrightarrow> k < length issued \<Longrightarrow>
   (call_verdict E k (issued ! k) = Some TryNext \<or> call_verdict E k (issued ! k) = Some GiveUp) \<or>
   (Suc k = length issued \<and>
    ((\<exists>j. out = Succeeded j \<and> call_verdict E k (issued ! k) = Some (Created j)) \<or>
     (out = Failed UncaughtException \<and>
      (call_verdict E k (issued ! k) = None \<or> call_verdict E k (issued ! k) = Some Died))))"
proof -
  assume m: "create_main E C = (out, issued)" and k: "k < length issued"
  note log = create_main_log [OF m]
  show ?thesis
  proof (cases out)
    case (Succeeded j)
    then have "ends_with E issued (Some (Created j))" using log by simp
    from ends_with_call [OF this k] show ?thesis using Succeeded by auto
  next
    case (Failed e)
    then consider "went_on E issued"
      | "e = UncaughtException" "ends_with E issued None"
      | "e = UncaughtException" "ends_with E issued (Some Died)"
      using log by auto
    then show ?thesis
    proof cases
      case 1
      from went_on_call [OF this k] show ?thesis by simp
    next
      case 2
      from ends_with_call [OF 2(2) k] show ?thesis using Failed 2(1) by auto
    next
      case 3
      from ends_with_call [OF 3(2) k] show ?thesis using Failed 3(1) by auto
    qed
  qed
qed

text \<open>
  Claim C3, as stated, at a call that exits with code 0 and answers
  \<open>{"InstanceId": "null"}\<close>: the textual pattern finds the identifier \<open>null\<close> in the
  response, and yet the attempt is not a success: the Provisioner goes through all three
  disk categories and exits with an error.
\<close>

theorem null_identifier_counterexample:
  "search_instance_id ex_null_response = Some ''null'' \<and>
   extract_instance_id ex_json_loads ex_null_response = Inr (JString ''null'') \<and>
   check_response ex_json_loads 0 ex_null_response = TryNext \<and>
   create_main (ex_env_of (ex_cli_const (Ran 0 ex_null_response []))) ex_create_cfg
     = (Failed (AllDiskCategoriesFailed (Some ex_null_response)), ex_commands)"
  by code_simp

text \<open>
  Claim C3, amended. In either mode a creation call is a success if and only if it returns
  exit code 0 and a non-empty response whose identifier is extracted and is neither false
  (as \<open>None\<close> and the empty string are) nor the string \<open>null\<close>. The extraction raises when
  \<open>json.loads\<close> raises an exception other than \<open>JSONDecodeError\<close> on the response; otherwise
  the extracted identifier is the first element of \<open>InstanceIdSets.InstanceIdSet\<close> when the
  response parses to an object that has such a non-empty list, and else the group of the
  leftmost match of the textual pattern, if there is one. A successful call is always the
  last creation call of the run, and the run then prints its identifier, once, and exits
  with status 0. A call that raises, or whose extraction raises, is the last call of the
  run too, and the run ends with that exception. A run that fails prints nothing on
  standard output, exits with a non-zero status, and none of its creation calls was a
  success.
\<close>

theorem creation_success:
  "(check_response (json_loads E) exit_code response = Created i \<longleftrightarrow>
      exit_code = 0 \<and> response \<noteq> [] \<and> extract_instance_id (json_loads E) response = Inr i \<and>
      truthy i \<and> i \<noteq> JString ''null'') \<and>
   extract_instance_id (json_loads E) response =
     (case json_loads E response of
        LoadsRaised \<Rightarrow> Inl OtherException
      | _ \<Rightarrow>
          Inr (case json_instance_id (json_loads E response) of
                 Some v \<Rightarrow> v
               | None \<Rightarrow>
                   (case search_instance_id response of Some g \<Rightarrow> JString g | None \<Rightarrow> JNull))) \<and>
   (check_response (json_loads E) exit_code response = Died \<longleftrightarrow>
      exit_code = 0 \<and> response \<noteq> [] \<and> json_loads E response = LoadsRaised) \<and>
   (\<forall>out issued. create_main E C = (out, issued) \<longrightarrow>
      (\<forall>k < length issued. succeeded_call E k (issued ! k) \<longrightarrow>
         Suc k = length issued \<and>
         (\<exists>j. out = Succeeded j \<and> call_verdict E k (issued ! k) = Some (Created j))) \<and>
      (\<forall>k < length issued.
         call_verdict E k (issued ! k) = None \<or> call_verdict E k (issued ! k) = Some Died \<longrightarrow>
         Suc k = length issued \<and> out = Failed UncaughtException) \<and>
      (\<forall>j. out = Succeeded j \<longrightarrow>
         issued \<noteq> [] \<and> call_verdict E (length issued - 1) (last issued) = Some (Created j) \<and>
         printed out = [j] \<and> exit_status out = 0) \<and>
      (\<forall>e. out = Failed e \<longrightarrow>
         printed out = [] \<and> exit_status out \<noteq> 0 \<and>
         (\<forall>k < length issued. \<not> succeeded_call E k (issued ! k))))"
proof (intro conjI allI impI)
  show "check_response (json_loads E) exit_code response = Created i \<longleftrightarrow>
      exit_code = 0 \<and> response \<noteq> [] \<and> extract_instance_id (json_loads E) response = Inr i \<and>
      truthy i \<and> i \<noteq> JString ''null''"
    by (simp add: check_response_Created usable_id_def)
  show "extract_instance_id (json_loads E) response =
     (case json_loads E response of
        LoadsRaised \<Rightarrow> Inl OtherException
      | _ \<Rightarrow>
          Inr (case json_instance_id (json_loads E response) of
                 Some v \<Rightarrow> v
               | None \<Rightarrow>
                   (case search_instance_id response of Some g \<Rightarrow> JString g | None \<Rightarrow> JNull)))"
    by (rule extract_instance_id_eq)
  show "check_response (json_loads E) exit_code response = Died \<longleftrightarrow>
      exit_code = 0 \<and> response \<noteq> [] \<and> json_loads E response = LoadsRaised"
    by (rule check_response_Died)
next
  fix out issued k
  assume m: "create_main E C = (out, issued)" and k: "k < length issued"
    and s: "succeeded_call E k (issued ! k)"
  have "Suc k = length issued \<and>
      (\<exists>j. out = Succeeded j \<and> call_verdict E k (issued ! k) = Some (Created j))"
    using create_main_calls [OF m k] s
    by (auto simp: succeeded_call_def is_created_def)
  then show "Suc k = length issued"
    and "\<exists>j. out = Succeeded j \<and> call_verdict E k (issued ! k) = Some (Created j)"
    by simp_all
next
  fix out issued k
  assume m: "create_main E C = (out, issued)" and k: "k < length issued"
    and s: "call_verdict E k (issued ! k) = None \<or> call_verdict E k (issued ! k) = Some Died"
  have "Suc k = length issued \<and> out = Failed UncaughtException"
    using create_main_calls [OF m k] s by auto
  then show "Suc k = length issued" and "out = Failed UncaughtException"
    by simp_all
next
  fix out issued j
  assume m: "create_main E C = (out, issued)" and o: "out = Succeeded j"
  have e: "ends_with E issued (Some (Created j))" using create_main_log [OF m] o by simp
  show "issued \<noteq> []" using e by (simp add: ends_with_def)
  show "call_verdict E (length issued - 1) (last issued) = Some (Created j)"
    using e by (simp add: ends_with_def)
  show "printed out = [j]" using o by simp
  show "exit_status out = 0" using o by simp
next
  fix out issued e
  assume m: "create_main E C = (out, issued)" and o: "out = Failed e"
  show "printed out = []" using o by simp
  show "exit_status out \<noteq> 0" using o by simp
  fix k
  assume k: "k < length issued"
  show "\<not> succeeded_call E k (issued ! k)"
    using create_main_calls [OF m k] o by (auto simp: succeeded_call_def is_created_def)
qed

theorem creation_success_witness:
  "check_response ex_json_loads 0 ex_created_response = Created (JString ''i-abc'') \<and>
   json_instance_id (ex_json_loads ex_created_response) = Some (JString ''i-abc'') \<and>
   create_main (ex_env_of (ex_cli_const (Ran 0 ex_created_response []))) ex_create_cfg
     = (Succeeded (JString ''i-abc''), [hd ex_commands]) \<and>
   succeeded_call (ex_env_of (ex_cli_const (Ran 0 ex_created_response []))) 0 (hd ex_commands) \<and>
   printed (Succeeded (JString ''i-abc'')) = [JString ''i-abc''] \<and>
   exit_status (Succeeded (JString ''i-abc'')) = 0 \<and>
   create_main (ex_env_of (ex_cli_const ex_no_stock)) ex_create_cfg
     = (Failed (AllDiskCategoriesFailed (Some ''ErrorCode: OperationDenied.NoStock'')),
        [hd ex_commands]) \<and>
   \<not> succeeded_call (ex_env_of (ex_cli_const ex_no_stock)) 0 (hd ex_commands) \<and>
   exit_status (Failed (AllDiskCategoriesFailed (Some ''ErrorCode: OperationDenied.NoStock''))) \<noteq> 0 \<and>
   check_response ex_json_loads 0 ex_deep_response = Died \<and>
   call_verdict (ex_env_of (ex_cli_const (Ran 0 ex_deep_response []))) 0 (hd ex_commands)
     = Some Died \<and>
   fst (create_main (ex_env_of (ex_cli_const (Ran 0 ex_deep_response []))) ex_create_cfg)
     = Failed UncaughtException \<and>
   length (snd (create_main (ex_env_of (ex_cli_const (Ran 0 ex_deep_response []))) ex_create_cfg))
     = 1"
proof -
  let ?S = "ex_env_of (ex_cli_const (Ran 0 ex_created_response []))"
  let ?N = "ex_env_of (ex_cli_const ex_no_stock)"
  let ?D = "ex_env_of (ex_cli_const (Ran 0 ex_deep_response []))"
  let ?f = "Failed (AllDiskCategoriesFailed (Some ''ErrorCode: OperationDenied.NoStock''))"
  have l: "json_loads ?S = ex_json_loads" "json_loads ?D = ex_json_loads"
    by (simp_all add: ex_env_of_def)
  have x: "extract_instance_id ex_json_loads ex_created_response = Inr (JString ''i-abc'')"
    by code_simp
  have ne: "ex_created_response \<noteq> []" by code_simp
  have j: "json_instance_id (ex_json_loads ex_created_response) = Some (JString ''i-abc'')"
    by code_simp
  have ms: "create_main ?S ex_create_cfg = (Succeeded (JString ''i-abc''), [hd ex_commands])"
    by code_simp
  have mn: "create_main ?N ex_create_cfg = (?f, [hd ex_commands])"
    by code_simp
  note ts = creation_success [of ?S 0 ex_created_response "JString ''i-abc''" ex_create_cfg]
  note tn = creation_success [of ?N 0 ex_created_response "JString ''i-abc''" ex_create_cfg]
  note td = creation_success [of ?D 0 ex_deep_response "JString ''i-abc''" ex_create_cfg]
  have c: "check_response ex_json_loads 0 ex_created_response = Created (JString ''i-abc'')"
    using ts [THEN conjunct1] l x ne by simp
  have s: "call_verdict ?S (length [hd ex_commands] - 1) (last [hd ex_commands])
      = Some (Created (JString ''i-abc''))"
    using ts [THEN conjunct2, THEN conjunct2, THEN conjunct2, rule_format, OF ms,
        THEN conjunct2, THEN conjunct2, THEN conjunct1, rule_format, OF refl]
    by simp
  have sc: "succeeded_call ?S 0 (hd ex_commands)"
    using s by (simp add: succeeded_call_def is_created_def)
  have pf: "printed (Succeeded (JString ''i-abc'')) = [JString ''i-abc''] \<and>
      exit_status (Succeeded (JString ''i-abc'')) = 0"
    using ts [THEN conjunct2, THEN conjunct2, THEN conjunct2, rule_format, OF ms,
        THEN conjunct2, THEN conjunct2, THEN conjunct1, rule_format, OF refl]
    by simp
  have f: "exit_status ?f \<noteq> 0 \<and> (\<forall>k < length [hd ex_commands].
      \<not> succeeded_call ?N k ([hd ex_commands] ! k))"
    using tn [THEN conjunct2, THEN conjunct2, THEN conjunct2, rule_format, OF mn,
        THEN conjunct2, THEN conjunct2, THEN conjunct2, rule_format, OF refl]
    by simp
  then have nf: "\<not> succeeded_call ?N 0 (hd ex_commands)" by simp
  have dv: "check_response ex_json_loads 0 ex_deep_response = Died"
    using td [THEN conjunct2, THEN conjunct2, THEN conjunct1] l ex_deep_loads ex_deep_nonempty
    by simp
  have kd: "create_command ?D ex_args (Some ''cloud_essd'') = hd ex_commands"
    by (simp add: create_command_def ex_commands_def disk_categories_def truthy_opt_def)
  have cvd: "call_verdict ?D 0 (hd ex_commands) = Some Died"
    using dv by (simp add: call_verdict_def call_response_def ex_env_of_def ex_cli_const_def)
  obtain out issued where md: "create_main ?D ex_create_cfg = (out, issued)"
    by (cases "create_main ?D ex_create_cfg")
  have first: "issued \<noteq> [] \<and> issued ! 0 = hd ex_commands"
    using md kd
    by (simp add: create_main_def multi_attempt_def ex_create_cfg_def truthy_opt_def
        user_data_b64_of_def ex_args_def disk_categories_def create_instance_def
        ex_env_of_def ex_cli_const_def
        split: prod.splits verdict.splits disk_outcome.splits sum.splits, auto)
  have "Suc 0 = length issued \<and> out = Failed UncaughtException"
    using td [THEN conjunct2, THEN conjunct2, THEN conjunct2, rule_format, OF md,
        THEN conjunct2, THEN conjunct1, rule_format, of 0] first cvd
    by auto
  then have dm: "fst (create_main ?D ex_create_cfg) = Failed UncaughtException \<and>
      length (snd (create_main ?D ex_create_cfg)) = 1"
    using md by simp
  show ?thesis
    using c j ms sc pf mn nf f dv cvd dm by blast
qed


section \<open>Properties of the UserData writer\<close>

lemma recompose2: "(c::nat) div 64 * 64 + c mod 64 = c"
  by simp

lemma recompose3: "(c::nat) div 4096 * 4096 + c div 64 mod 64 * 64 + c mod 64 = c"
proof -
  define x where "x = c div 64"
  define y where "y = x div 64"
  define z where "z = x mod 64"
  have x: "x = y * 64 + z" by (simp add: y_def z_def)
  have "c div 4096 = y" by (simp add: y_def x_def div_mult2_eq)
  moreover have "c div 64 mod 64 = z" by (simp add: z_def x_def)
  moreover have "c = x * 64 + c mod 64" by (simp add: x_def)
  ultimately show ?thesis using x by simp
qed

lemma recompose4:
  "(c::nat) div 262144 * 262144 + c div 4096 mod 64 * 4096 + c div 64 mod 64 * 64 + c mod 64 = c"
proof -
  define x where "x = c div 4096"
  define y where "y = x div 64"
  define z where "z = x mod 64"
  have x: "x = y * 64 + z" by (simp add: y_def z_def)
  have "c div 262144 = y" by (simp add: y_def x_def div_mult2_eq)
  moreover have "c div 4096 mod 64 = z" by (simp add: z_def x_def)
  moreover have "c = x * 4096 + c div 64 mod 64 * 64 + c mod 64"
    using recompose3 [of c] by (simp add: x_def)
  ultimately show ?thesis using x by simp
qed

lemma div_bound: "(c::nat) < k * n \<Longrightarrow> c div k < n"
  by (simp add: less_mult_imp_div_less mult.commute)

lemma utf8_decode_2:
  assumes "0x80 \<le> c" "c < 0x800"
  shows "utf8_decode ([0xC0 + c div 64, 0x80 + c mod 64] @ rest)
     = map_option (\<lambda>t. c # t) (utf8_decode rest)"
proof -
  have a: "2 \<le> c div 64" using assms by (simp add: less_eq_div_iff_mult_less_eq)
  have a': "c div 64 < 32" using assms by (intro div_bound) simp
  have b: "c mod 64 < 64" by simp
  have l: "0xC2 \<le> 0xC0 + c div 64 \<and> 0xC0 + c div 64 < 0xE0" "\<not> 0xC0 + c div 64 < 0x80"
    using a a' by simp_all
  have k: "is_cont (0x80 + c mod 64)" using b by (simp add: is_cont_def)
  have v: "(0xC0 + c div 64 - 0xC0) * 64 + (0x80 + c mod 64 - 0x80) = c"
    using recompose2 [of c] by simp
  show ?thesis
    by (simp only: append_Cons append_Nil utf8_decode.simps l k v if_True if_False list.case simp_thms)
qed

lemma utf8_decode_3:
  assumes "0x800 \<le> c" "c < 0x10000" "\<not> (0xD800 \<le> c \<and> c \<le> 0xDFFF)"
  shows "utf8_decode ([0xE0 + c div 4096, 0x80 + (c div 64) mod 64, 0x80 + c mod 64] @ rest)
     = map_option (\<lambda>t. c # t) (utf8_decode rest)"
proof -
  have a: "c div 4096 < 16" using assms by (intro div_bound) simp
  have b: "c div 64 mod 64 < 64" "c mod 64 < 64" by simp_all
  have l: "\<not> 0xE0 + c div 4096 < 0x80"
    "\<not> (0xC2 \<le> 0xE0 + c div 4096 \<and> 0xE0 + c div 4096 < 0xE0)"
    "0xE0 \<le> 0xE0 + c div 4096 \<and> 0xE0 + c div 4096 < 0xF0"
    using a by simp_all
  have k: "is_cont (0x80 + c div 64 mod 64)" "is_cont (0x80 + c mod 64)"
    using b by (simp_all add: is_cont_def)
  have v: "(0xE0 + c div 4096 - 0xE0) * 4096 + (0x80 + c div 64 mod 64 - 0x80) * 64
      + (0x80 + c mod 64 - 0x80) = c"
    using recompose3 [of c] by simp
  have ok: "is_cont (0x80 + c div 64 mod 64) \<and> is_cont (0x80 + c mod 64) \<and> 0x800 \<le> c \<and>
      \<not> (0xD800 \<le> c \<and> c \<le> 0xDFFF)"
    using k assms by simp
  show ?thesis
    by (simp only: append_Cons append_Nil utf8_decode.simps l v ok if_True if_False list.case Let_def simp_thms)
qed

lemma utf8_decode_4:
  assumes "0x10000 \<le> c" "c < 0x110000"
  shows "utf8_decode ([0xF0 + c div 262144, 0x80 + (c div 4096) mod 64,
                       0x80 + (c div 64) mod 64, 0x80 + c mod 64] @ rest)
     = map_option (\<lambda>t. c # t) (utf8_decode rest)"
proof -
  have a: "c div 262144 < 5"
  proof -
    have "c < 262144 * 5" using assms by simp
    then show ?thesis by (rule div_bound)
  qed
  have b: "c div 4096 mod 64 < 64" "c div 64 mod 64 < 64" "c mod 64 < 64" by simp_all
  have l: "\<not> 0xF0 + c div 262144 < 0x80"
    "\<not> (0xC2 \<le> 0xF0 + c div 262144 \<and> 0xF0 + c div 262144 < 0xE0)"
    "\<not> (0xE0 \<le> 0xF0 + c div 262144 \<and> 0xF0 + c div 262144 < 0xF0)"
    "0xF0 \<le> 0xF0 + c div 262144 \<and> 0xF0 + c div 262144 < 0xF5"
    using a by simp_all
  have k: "is_cont (0x80 + c div 4096 mod 64)" "is_cont (0x80 + c div 64 mod 64)"
    "is_cont (0x80 + c mod 64)"
    using b by (simp_all add: is_cont_def)
  have v: "(0xF0 + c div 262144 - 0xF0) * 262144 + (0x80 + c div 4096 mod 64 - 0x80) * 4096
      + (0x80 + c div 64 mod 64 - 0x80) * 64 + (0x80 + c mod 64 - 0x80) = c"
    using recompose4 [of c] by simp
  have ok: "is_cont (0x80 + c div 4096 mod 64) \<and> is_cont (0x80 + c div 64 mod 64) \<and>
      is_cont (0x80 + c mod 64) \<and> 0x10000 \<le> c \<and> c < 0x110000"
    using k assms by simp
  show ?thesis
    by (simp only: append_Cons append_Nil utf8_decode.simps l v ok if_True if_False list.case Let_def simp_thms)
qed

lemma utf8_encode_cp_decode:
  "utf8_encode_cp c = Some bs \<Longrightarrow>
   utf8_decode (bs @ rest) = map_option (\<lambda>t. c # t) (utf8_decode rest)"
proof -
  assume e: "utf8_encode_cp c = Some bs"
  consider "c < 0x80" | "0x80 \<le> c \<and> c < 0x800"
    | "0x800 \<le> c \<and> c < 0x10000" | "0x10000 \<le> c \<and> c < 0x110000" | "0x110000 \<le> c"
    by linarith
  then show ?thesis
  proof cases
    case 1
    then show ?thesis using e by (auto simp: utf8_encode_cp_def)
  next
    case 2
    then have "bs = [0xC0 + c div 64, 0x80 + c mod 64]"
      using e by (simp add: utf8_encode_cp_def)
    then show ?thesis using utf8_decode_2 2 by blast
  next
    case 3
    then have "bs = [0xE0 + c div 4096, 0x80 + (c div 64) mod 64, 0x80 + c mod 64]"
      and "\<not> (0xD800 \<le> c \<and> c \<le> 0xDFFF)"
      using e by (auto simp: utf8_encode_cp_def split: if_splits)
    then show ?thesis using utf8_decode_3 3 by blast
  next
    case 4
    then have "bs = [0xF0 + c div 262144, 0x80 + (c div 4096) mod 64,
                       0x80 + (c div 64) mod 64, 0x80 + c mod 64]"
      using e by (auto simp: utf8_encode_cp_def split: if_splits)
    then show ?thesis using utf8_decode_4 4 by blast
  next
    case 5
    then show ?thesis using e by (simp add: utf8_encode_cp_def)
  qed
qed

lemma index_of_nth: "distinct xs \<Longrightarrow> i < length xs \<Longrightarrow> index_of (xs ! i) xs = Some i"
proof (induction xs arbitrary: i)
  case Nil
  then show ?case by simp
next
  case (Cons x xs)
  show ?case
  proof (cases i)
    case 0
    then show ?thesis by simp
  next
    case (Suc j)
    then have "xs ! j \<in> set xs" using Cons.prems by simp
    then have "xs ! j \<noteq> x" using Cons.prems by auto
    then show ?thesis using Suc Cons by auto
  qed
qed

lemma b64_alphabet_length: "length b64_alphabet = 64"
  by (simp add: b64_alphabet_def)

lemma b64_alphabet_distinct: "distinct b64_alphabet"
  by (simp add: b64_alphabet_def)

lemma b64_alphabet_chars:
  "\<forall>c \<in> set b64_alphabet. c \<noteq> CHR ''='' \<and> (of_char c :: nat) < 128 \<and> \<not> py_isspace c"
  by (simp add: b64_alphabet_def py_isspace_def)

lemma b64_char_in: "v < 64 \<Longrightarrow> b64_char v \<in> set b64_alphabet"
  by (simp add: b64_char_def b64_alphabet_length)

lemma b64_index_char: "v < 64 \<Longrightarrow> b64_index (b64_char v) = Some v"
  unfolding b64_index_def b64_char_def
  by (intro index_of_nth) (simp_all add: b64_alphabet_distinct b64_alphabet_length)

lemma b64_char_not_pad: "v < 64 \<Longrightarrow> b64_char v \<noteq> CHR ''=''"
  using b64_char_in b64_alphabet_chars by blast

lemma a2b_data:
  "v < 64 \<Longrightarrow>
   a2b_base64 q l p out (b64_char v # cs) =
     (if q = 0 then a2b_base64 1 v 0 out cs
      else if q = 1 then a2b_base64 2 (v mod 16) 0 (out @ [(l * 4 + v div 16) mod 256]) cs
      else if q = 2 then a2b_base64 3 (v mod 4) 0 (out @ [(l * 16 + v div 4) mod 256]) cs
      else a2b_base64 0 0 0 (out @ [(l * 64 + v) mod 256]) cs)"
  by (simp add: b64_index_char b64_char_not_pad)

lemma idx_bounds:
  fixes a b c :: nat
  assumes "a < 256" "b < 256" "c < 256"
  shows "a div 4 < 64" "(a mod 4) * 16 + b div 16 < 64" "(b mod 16) * 4 + c div 64 < 64"
    "c mod 64 < 64" "(a mod 4) * 16 < 64" "(b mod 16) * 4 < 64"
proof -
  show "a div 4 < 64" using assms by (intro div_bound) simp
  have "a mod 4 < 4" "b mod 16 < 16" by simp_all
  moreover have "b div 16 < 16" using assms by (intro div_bound) simp
  moreover have "c div 64 < 4" using assms by (intro div_bound) simp
  ultimately show "(a mod 4) * 16 + b div 16 < 64" "(b mod 16) * 4 + c div 64 < 64"
    "(a mod 4) * 16 < 64" "(b mod 16) * 4 < 64"
    by linarith+
  show "c mod 64 < 64" by simp
qed

lemma byte0:
  fixes a b :: nat
  assumes "a < 256" "b < 256"
  shows "(a div 4 * 4 + ((a mod 4) * 16 + b div 16) div 16) mod 256 = a"
proof -
  have "b div 16 < 16" using assms by (intro div_bound) simp
  then have "((a mod 4) * 16 + b div 16) div 16 = a mod 4" by simp
  then show ?thesis using assms by simp
qed

lemma byte0': 
  fixes a :: nat
  assumes "a < 256"
  shows "(a div 4 * 4 + ((a mod 4) * 16) div 16) mod 256 = a"
  using byte0 [OF assms, of 0] by simp

lemma byte1:
  fixes a b c :: nat
  assumes "b < 256" "c < 256"
  shows "(((a mod 4) * 16 + b div 16) mod 16 * 16 + ((b mod 16) * 4 + c div 64) div 4) mod 256 = b"
proof -
  have "b div 16 < 16" using assms by (intro div_bound) simp
  then have 1: "((a mod 4) * 16 + b div 16) mod 16 = b div 16" by simp
  have "c div 64 < 4" using assms by (intro div_bound) simp
  then have 2: "((b mod 16) * 4 + c div 64) div 4 = b mod 16" by simp
  show ?thesis unfolding 1 2 using assms by simp
qed

lemma byte1':
  fixes a b :: nat
  assumes "b < 256"
  shows "(((a mod 4) * 16 + b div 16) mod 16 * 16 + ((b mod 16) * 4) div 4) mod 256 = b"
  using byte1 [OF assms, of 0 a] by simp

lemma byte2:
  fixes b c :: nat
  assumes "c < 256"
  shows "(((b mod 16) * 4 + c div 64) mod 4 * 64 + c mod 64) mod 256 = c"
proof -
  have "c div 64 < 4" using assms by (intro div_bound) simp
  then have 1: "((b mod 16) * 4 + c div 64) mod 4 = c div 64" by simp
  show ?thesis unfolding 1 using assms by simp
qed

lemma a2b_pad:
  "a2b_base64 q l p out (CHR ''='' # cs) =
     (if q \<ge> 2 \<and> q + (p + 1) \<ge> 4 then Inr out
      else a2b_base64 q l (if q \<ge> 2 then p + 1 else p) out cs)"
  by simp

lemma a2b_quad:
  assumes "a < 256" "b < 256" "c < 256"
  shows "a2b_base64 0 0 0 out
           ([b64_char (a div 4), b64_char ((a mod 4) * 16 + b div 16),
             b64_char ((b mod 16) * 4 + c div 64), b64_char (c mod 64)] @ rest)
         = a2b_base64 0 0 0 (out @ [a, b, c]) rest"
  using idx_bounds [OF assms] byte0 [OF assms(1,2)] byte1 [OF assms(2,3), of a] byte2 [OF assms(3), of b]
  by (simp add: a2b_data del: a2b_base64.simps)

lemma a2b_one:
  assumes "a < 256"
  shows "a2b_base64 0 0 0 out
           [b64_char (a div 4), b64_char ((a mod 4) * 16), CHR ''='', CHR ''='']
         = Inr (out @ [a])"
  using idx_bounds(1,5) [OF assms assms assms] byte0' [OF assms]
  by (simp add: a2b_data a2b_pad del: a2b_base64.simps)

lemma a2b_two:
  assumes "a < 256" "b < 256"
  shows "a2b_base64 0 0 0 out
           [b64_char (a div 4), b64_char ((a mod 4) * 16 + b div 16), b64_char ((b mod 16) * 4),
            CHR ''='']
         = Inr (out @ [a, b])"
  using idx_bounds(1,2,6) [OF assms assms(1)] byte0 [OF assms] byte1' [OF assms(2), of a]
  by (simp add: a2b_data a2b_pad del: a2b_base64.simps)

lemma a2b_roundtrip:
  "\<forall>b \<in> set bs. b < 256 \<Longrightarrow> a2b_base64 0 0 0 out (b64encode bs) = Inr (out @ bs)"
proof (induction bs arbitrary: out rule: b64encode.induct)
  case 1
  then show ?case by simp
next
  case (2 a)
  then show ?case using a2b_one by simp
next
  case (3 a b)
  then show ?case using a2b_two by simp
next
  case (4 a b c rest)
  have "a2b_base64 0 0 0 out (b64encode (a # b # c # rest))
      = a2b_base64 0 0 0 (out @ [a, b, c]) (b64encode rest)"
    using "4.prems" a2b_quad [of a b c out "b64encode rest"] by simp
  then show ?case using 4 by simp
qed

lemma b64encode_chars:
  "\<forall>b \<in> set bs. b < 256 \<Longrightarrow>
   \<forall>c \<in> set (b64encode bs). (of_char c :: nat) < 128 \<and> \<not> py_isspace c"
proof (induction bs rule: b64encode.induct)
  case 1
  then show ?case by simp
next
  case (2 a)
  then have "a < 256" by simp
  note i = idx_bounds [OF this this this]
  have "\<not> py_isspace (CHR ''='')" by (simp add: py_isspace_def)
  then show ?case
    using i b64_char_in b64_alphabet_chars by auto
next
  case (3 a b)
  then have ab: "a < 256" "b < 256" by simp_all
  note i = idx_bounds [OF ab ab(1)]
  have "\<not> py_isspace (CHR ''='')" by (simp add: py_isspace_def)
  then show ?case
    using i b64_char_in b64_alphabet_chars by auto
next
  case (4 a b c rest)
  then have abc: "a < 256" "b < 256" "c < 256" by simp_all
  note i = idx_bounds [OF abc]
  have r: "\<forall>c \<in> set (b64encode rest). (of_char c :: nat) < 128 \<and> \<not> py_isspace c"
    using 4 by simp
  show ?case
    using i r b64_char_in b64_alphabet_chars by auto
qed

lemma b64encode_nonempty: "bs \<noteq> [] \<Longrightarrow> b64encode bs \<noteq> []"
  by (induction bs rule: b64encode.induct) simp_all

lemma b64decode_roundtrip:
  "\<forall>b \<in> set bs. b < 256 \<Longrightarrow> b64decode (b64encode bs) = Inr bs"
  using b64encode_chars [of bs] a2b_roundtrip [of bs "[]"]
  by (auto simp: b64decode_def)

lemma dropWhile_all_then:
  "\<forall>c \<in> set pre. P c \<Longrightarrow> dropWhile P (pre @ rest) = dropWhile P rest"
  by (induction pre) auto

lemma py_strip_clean:
  assumes "s \<noteq> []" "\<forall>c \<in> set s. \<not> py_isspace c"
    "\<forall>c \<in> set pre. py_isspace c" "\<forall>c \<in> set post. py_isspace c"
  shows "py_strip (pre @ s @ post) = s"
proof -
  obtain h t where s1: "s = h # t" using assms(1) by (cases s) auto
  obtain xs x where s2: "s = xs @ [x]" using assms(1) by (cases s rule: rev_cases) auto
  have h: "\<not> py_isspace h" using assms(2) s1 by simp
  have x: "\<not> py_isspace x" using assms(2) s2 by simp
  have 1: "dropWhile py_isspace (pre @ s @ post) = s @ post"
    using dropWhile_all_then [OF assms(3), of "s @ post"] h s1 by simp
  have "\<forall>c \<in> set (rev post). py_isspace c" using assms(4) by simp
  from dropWhile_all_then [OF this, of "rev s"]
  have 2: "dropWhile py_isspace (rev (s @ post)) = rev s"
    using x s2 by simp
  show ?thesis
    unfolding py_strip_def 1 2 by simp
qed

lemma py_strip_nil: "py_strip [] = []"
  by (simp add: py_strip_def)

lemma utf8_roundtrip: "utf8_encode t = Some bs \<Longrightarrow> utf8_decode bs = Some t"
proof (induction t arbitrary: bs)
  case Nil
  then show ?case by simp
next
  case (Cons c t)
  then obtain b r where b: "utf8_encode_cp c = Some b" and r: "utf8_encode t = Some r"
    and bs: "bs = b @ r"
    by (auto split: option.splits)
  show ?case
    using utf8_encode_cp_decode [OF b, of r] Cons.IH [OF r] bs by simp
qed

lemma utf8_encode_cp_bytes: "utf8_encode_cp c = Some bs \<Longrightarrow> \<forall>b \<in> set bs. b < 256"
proof -
  assume e: "utf8_encode_cp c = Some bs"
  have mm: "x mod 64 < 128" for x :: nat
  proof -
    have "x mod 64 < 64" by simp
    then show ?thesis by linarith
  qed
  have m: "c mod 64 < 128" "c div 64 mod 64 < 128" "c div 4096 mod 64 < 128"
    by (rule mm)+
  have d2: "c < 0x800 \<Longrightarrow> c div 64 < 32" by (rule div_bound) simp
  have d3: "c < 0x10000 \<Longrightarrow> c div 4096 < 16" by (rule div_bound) simp
  have d4: "c < 0x110000 \<Longrightarrow> c div 262144 < 5" by (rule div_bound) simp
  consider "c < 0x80" | "0x80 \<le> c \<and> c < 0x800"
    | "0x800 \<le> c \<and> c < 0x10000" | "0x10000 \<le> c \<and> c < 0x110000" | "0x110000 \<le> c"
    by linarith
  then show ?thesis
  proof cases
    case 1
    then show ?thesis using e by (auto simp: utf8_encode_cp_def)
  next
    case 2
    then have "bs = [0xC0 + c div 64, 0x80 + c mod 64]"
      using e by (simp add: utf8_encode_cp_def)
    then show ?thesis using d2 2 m by simp
  next
    case 3
    then have "bs = [0xE0 + c div 4096, 0x80 + (c div 64) mod 64, 0x80 + c mod 64]"
      using e by (auto simp: utf8_encode_cp_def split: if_splits)
    then show ?thesis using d3 3 m by simp
  next
    case 4
    then have "bs = [0xF0 + c div 262144, 0x80 + (c div 4096) mod 64,
                       0x80 + (c div 64) mod 64, 0x80 + c mod 64]"
      using e by (auto simp: utf8_encode_cp_def split: if_splits)
    then show ?thesis using d4 4 m by simp
  next
    case 5
    then show ?thesis using e by (simp add: utf8_encode_cp_def)
  qed
qed

lemma utf8_encode_cp_nonempty: "utf8_encode_cp c = Some bs \<Longrightarrow> bs \<noteq> []"
  unfolding utf8_encode_cp_def
  by (auto split: if_splits)

lemma utf8_encode_bytes: "utf8_encode t = Some bs \<Longrightarrow> \<forall>b \<in> set bs. b < 256"
proof (induction t arbitrary: bs)
  case Nil
  then show ?case by simp
next
  case (Cons c t)
  then obtain b r where b: "utf8_encode_cp c = Some b" and r: "utf8_encode t = Some r"
    and bs: "bs = b @ r"
    by (auto split: option.splits)
  show ?case
    using utf8_encode_cp_bytes [OF b] Cons.IH [OF r] bs by auto
qed

lemma utf8_encode_nonempty: "utf8_encode t = Some bs \<Longrightarrow> t \<noteq> [] \<Longrightarrow> bs \<noteq> []"
  by (cases t) (auto split: option.splits dest: utf8_encode_cp_nonempty)

lemma write_user_data_decoded:
  assumes "length (w_argv W) \<ge> 2" "writer_input W \<noteq> []"
    "b64decode (writer_input W) = Inr raw" "utf8_decode raw = Some t" "utf8_encode t = Some bs"
    "w_write_ok W"
  shows "write_user_data W = Written (w_argv W ! 1) bs (length bs)"
  using assms by (simp add: write_user_data_def writer_input_def Let_def)

lemma encoded_round_trip:
  assumes "utf8_encode t = Some bs" "t \<noteq> []"
  shows "b64encode bs \<noteq> []" "b64decode (b64encode bs) = Inr bs" "utf8_decode bs = Some t"
    "\<forall>c \<in> set (b64encode bs). \<not> py_isspace c"
proof -
  have bytes: "\<forall>b \<in> set bs. b < 256" using assms(1) by (rule utf8_encode_bytes)
  show "b64encode bs \<noteq> []"
    using utf8_encode_nonempty [OF assms] by (rule b64encode_nonempty)
  show "b64decode (b64encode bs) = Inr bs" using bytes by (rule b64decode_roundtrip)
  show "utf8_decode bs = Some t" using assms(1) by (rule utf8_roundtrip)
  show "\<forall>c \<in> set (b64encode bs). \<not> py_isspace c"
    using b64encode_chars [OF bytes] by blast
qed

text \<open>
  Claim C8, as stated, at the empty payload: its base64 encoding is the empty string, which
  the writer takes for no input at all, from the environment variable as from standard
  input; it exits with status 1 and writes no file.
\<close>

theorem empty_payload_counterexample:
  "encode_user_data [] = Inr [] \<and>
   write_user_data \<lparr> w_argv = ex_writer_argv, w_user_data_b64 = Some [], w_stdin = [],
                     w_write_ok = True \<rparr> = WriterExit EmptyUserData \<and>
   write_user_data \<lparr> w_argv = ex_writer_argv, w_user_data_b64 = None, w_stdin = [],
                     w_write_ok = True \<rparr> = WriterExit EmptyUserData \<and>
   writer_status (WriterExit EmptyUserData) = 1"
  by code_simp

text \<open>
  Claim C8, amended. For every non-empty text payload that UTF-8 can encode: when its
  base64 encoding is the writer's input, in the environment variable or, the variable
  being unset or empty, on standard input (blanks around it allowed), and the writer is
  run with a destination path that can be written, the destination file holds the UTF-8
  bytes of the payload, and their number is the size reported (on a system whose line end
  is the newline). And the writer exits with status 1, writing nothing, when no
  destination argument is given, when no input is left in either source, and when base64
  or UTF-8 decoding fails.
\<close>

theorem user_data_round_trip:
  "(utf8_encode t = Some bs \<and> t \<noteq> [] \<and> length args \<ge> 2 \<longrightarrow>
      encode_user_data t = Inr (b64encode bs) \<and>
      write_user_data \<lparr> w_argv = args, w_user_data_b64 = Some (b64encode bs), w_stdin = inp,
                        w_write_ok = True \<rparr>
        = Written (args ! 1) bs (length bs) \<and>
      ((e = None \<or> e = Some []) \<and> (\<forall>c \<in> set pre. py_isspace c) \<and>
       (\<forall>c \<in> set post. py_isspace c) \<longrightarrow>
         write_user_data \<lparr> w_argv = args, w_user_data_b64 = e,
                           w_stdin = pre @ b64encode bs @ post, w_write_ok = True \<rparr>
           = Written (args ! 1) bs (length bs))) \<and>
   (length (w_argv W) < 2 \<longrightarrow> write_user_data W = WriterExit UsageError) \<and>
   (length (w_argv W) \<ge> 2 \<and> (w_user_data_b64 W = None \<or> w_user_data_b64 W = Some []) \<and>
    py_strip (w_stdin W) = [] \<longrightarrow> write_user_data W = WriterExit EmptyUserData) \<and>
   (length (w_argv W) \<ge> 2 \<and> writer_input W \<noteq> [] \<and>
    (b64decode (writer_input W) = Inl BinasciiError \<or>
     (\<exists>raw. b64decode (writer_input W) = Inr raw \<and> utf8_decode raw = None)) \<longrightarrow>
      write_user_data W = WriterExit DecodeFailed) \<and>
   (length (w_argv W) \<ge> 2 \<and> writer_input W \<noteq> [] \<and>
    b64decode (writer_input W) = Inl AsciiValueError \<longrightarrow>
      write_user_data W = WriterExit WriterUncaught) \<and>
   (\<forall>err. writer_status (WriterExit err) = 1)"
proof (intro conjI allI impI)
  assume h: "utf8_encode t = Some bs \<and> t \<noteq> [] \<and> length args \<ge> 2"
  note r = encoded_round_trip [of t bs]
  show "encode_user_data t = Inr (b64encode bs)"
    using h by (simp add: encode_user_data_def)
  let ?W = "\<lparr> w_argv = args, w_user_data_b64 = Some (b64encode bs), w_stdin = inp,
                        w_write_ok = True \<rparr>"
  have i: "writer_input ?W = b64encode bs"
    using r(1) h by (simp add: writer_input_def)
  show "write_user_data ?W = Written (args ! 1) bs (length bs)"
    using write_user_data_decoded [of ?W bs t bs] i r h by simp
next
  assume h: "utf8_encode t = Some bs \<and> t \<noteq> [] \<and> length args \<ge> 2"
    and s: "(e = None \<or> e = Some []) \<and> (\<forall>c \<in> set pre. py_isspace c) \<and>
       (\<forall>c \<in> set post. py_isspace c)"
  note r = encoded_round_trip [of t bs]
  let ?W = "\<lparr> w_argv = args, w_user_data_b64 = e,
                           w_stdin = pre @ b64encode bs @ post, w_write_ok = True \<rparr>"
  have "py_strip (pre @ b64encode bs @ post) = b64encode bs"
    using py_strip_clean [of "b64encode bs" pre post] r h s by simp
  then have i: "writer_input ?W = b64encode bs"
    using s by (auto simp: writer_input_def)
  show "write_user_data ?W = Written (args ! 1) bs (length bs)"
    using write_user_data_decoded [of ?W bs t bs] i r h by simp
next
  assume "length (w_argv W) < 2"
  then show "write_user_data W = WriterExit UsageError"
    by (simp add: write_user_data_def)
next
  assume "length (w_argv W) \<ge> 2 \<and> (w_user_data_b64 W = None \<or> w_user_data_b64 W = Some []) \<and>
    py_strip (w_stdin W) = []"
  then show "write_user_data W = WriterExit EmptyUserData"
    by (auto simp: write_user_data_def Let_def)
next
  assume "length (w_argv W) \<ge> 2 \<and> writer_input W \<noteq> [] \<and>
    (b64decode (writer_input W) = Inl BinasciiError \<or>
     (\<exists>raw. b64decode (writer_input W) = Inr raw \<and> utf8_decode raw = None))"
  then show "write_user_data W = WriterExit DecodeFailed"
    by (auto simp: write_user_data_def writer_input_def Let_def)
next
  assume "length (w_argv W) \<ge> 2 \<and> writer_input W \<noteq> [] \<and>
    b64decode (writer_input W) = Inl AsciiValueError"
  then show "write_user_data W = WriterExit WriterUncaught"
    by (auto simp: write_user_data_def writer_input_def Let_def)
next
  fix err
  show "writer_status (WriterExit err) = 1" by simp
qed

theorem user_data_round_trip_witness:
  "utf8_encode ex_payload = Some [35, 33, 10, 228, 184, 173] \<and>
   ex_payload \<noteq> [] \<and> length ex_writer_argv \<ge> 2 \<and>
   encode_user_data ex_payload = Inr ''IyEK5Lit'' \<and>
   write_user_data \<lparr> w_argv = ex_writer_argv, w_user_data_b64 = Some ''IyEK5Lit'', w_stdin = [],
                     w_write_ok = True \<rparr>
     = Written ''/tmp/user_data.sh'' [35, 33, 10, 228, 184, 173] 6 \<and>
   write_user_data \<lparr> w_argv = ex_writer_argv, w_user_data_b64 = None,
                     w_stdin = [] @ ''IyEK5Lit'' @ [CHR 0x0A], w_write_ok = True \<rparr>
     = Written ''/tmp/user_data.sh'' [35, 33, 10, 228, 184, 173] 6 \<and>
   write_user_data \<lparr> w_argv = [''write_user_data.py''], w_user_data_b64 = Some ''IyEK5Lit'',
                     w_stdin = [], w_write_ok = True \<rparr> = WriterExit UsageError \<and>
   write_user_data \<lparr> w_argv = ex_writer_argv, w_user_data_b64 = Some [], w_stdin = '' '',
                     w_write_ok = True \<rparr> = WriterExit EmptyUserData \<and>
   b64decode ''A'' = Inl BinasciiError \<and>
   write_user_data \<lparr> w_argv = ex_writer_argv, w_user_data_b64 = Some ''A'', w_stdin = [],
                     w_write_ok = True \<rparr> = WriterExit DecodeFailed \<and>
   writer_status (WriterExit DecodeFailed) = 1"
proof -
  let ?bs = "[35, 33, 10, 228, 184, 173] :: nat list"
  let ?U = "\<lparr> w_argv = [''write_user_data.py''], w_user_data_b64 = Some ''IyEK5Lit'',
                     w_stdin = [], w_write_ok = True \<rparr>"
  let ?E = "\<lparr> w_argv = ex_writer_argv, w_user_data_b64 = Some [], w_stdin = '' '',
                     w_write_ok = True \<rparr>"
  let ?D = "\<lparr> w_argv = ex_writer_argv, w_user_data_b64 = Some ''A'', w_stdin = [],
                     w_write_ok = True \<rparr>"
  have u: "utf8_encode ex_payload = Some ?bs"
    by (simp add: ex_payload_def utf8_encode_cp_def)
  have ne: "ex_payload \<noteq> []" by (simp add: ex_payload_def)
  have la: "length ex_writer_argv \<ge> 2" by (simp add: ex_writer_argv_def)
  have b: "b64encode ?bs = ''IyEK5Lit''"
    by (simp add: b64_char_def b64_alphabet_def)
  have p: "ex_writer_argv ! 1 = ''/tmp/user_data.sh''" by (simp add: ex_writer_argv_def)
  have sp: "(None = None \<or> None = Some ([] :: string)) \<and> (\<forall>c \<in> set ([] :: string). py_isspace c) \<and>
       (\<forall>c \<in> set [CHR 0x0A]. py_isspace c)"
    by (simp add: py_isspace_def)
  note rt = user_data_round_trip [of ex_payload ?bs ex_writer_argv "[]" None "[]" "[CHR 0x0A]",
      THEN conjunct1, THEN mp, OF conjI [OF u conjI [OF ne la]]]
  have r1: "encode_user_data ex_payload = Inr ''IyEK5Lit''"
    using rt [THEN conjunct1] b by simp
  have r2: "write_user_data \<lparr> w_argv = ex_writer_argv, w_user_data_b64 = Some ''IyEK5Lit'',
        w_stdin = [], w_write_ok = True \<rparr> = Written ''/tmp/user_data.sh'' ?bs 6"
    using rt [THEN conjunct2, THEN conjunct1] b p by simp
  have r3: "write_user_data \<lparr> w_argv = ex_writer_argv, w_user_data_b64 = None,
        w_stdin = [] @ ''IyEK5Lit'' @ [CHR 0x0A], w_write_ok = True \<rparr>
      = Written ''/tmp/user_data.sh'' ?bs 6"
    using rt [THEN conjunct2, THEN conjunct2, THEN mp, OF sp] b p by simp
  have r4: "write_user_data ?U = WriterExit UsageError"
    using user_data_round_trip [where W = ?U, THEN conjunct2, THEN conjunct1] by simp
  have "py_strip '' '' = []" by (simp add: py_strip_def py_isspace_def)
  then have r5: "write_user_data ?E = WriterExit EmptyUserData"
    using user_data_round_trip [where W = ?E, THEN conjunct2, THEN conjunct2, THEN conjunct1] la
    by simp
  have d: "b64decode ''A'' = Inl BinasciiError"
    by (simp add: b64decode_def b64_index_def b64_alphabet_def)
  have "writer_input ?D = ''A''" by (simp add: writer_input_def)
  then have r6: "write_user_data ?D = WriterExit DecodeFailed"
    using user_data_round_trip [where W = ?D, THEN conjunct2, THEN conjunct2, THEN conjunct2,
        THEN conjunct1] la d
    by simp
  have r7: "writer_status (WriterExit DecodeFailed) = 1" by simp
  show ?thesis
    using u ne la r1 r2 r3 r4 r5 d r6 r7 by blast
qed

end
